theory Spec2Isabelle
  imports Complex_Main
begin

section \<open>Python strings\<close>

text \<open>
  A Python \<open>str\<close> is a sequence of Unicode code points. It is modelled as a list of
  natural numbers, one per code point, so that texts outside Latin-1 (the prompts and the
  generated articles are Russian) are ordinary values. \<open>str\<close> turns an ASCII literal
  into such a sequence.
\<close>

type_synonym codepoint = nat
type_synonym pystr = "codepoint list"

definition str :: "string \<Rightarrow> pystr" where
  "str s = map of_char s"

abbreviation NEWLINE :: codepoint where "NEWLINE \<equiv> 10"
abbreviation DOLLAR :: codepoint where "DOLLAR \<equiv> 36"
abbreviation HASH :: codepoint where "HASH \<equiv> 35"
abbreviation STAR :: codepoint where "STAR \<equiv> 42"
abbreviation SLASH :: codepoint where "SLASH \<equiv> 47"
abbreviation LBRACKET :: codepoint where "LBRACKET \<equiv> 91"
abbreviation BACKSLASH :: codepoint where "BACKSLASH \<equiv> 92"
abbreviation RBRACKET :: codepoint where "RBRACKET \<equiv> 93"
abbreviation BACKTICK :: codepoint where "BACKTICK \<equiv> 96"
abbreviation LBRACE :: codepoint where "LBRACE \<equiv> 123"

text \<open>Truthiness of an optional string: \<open>None\<close> and the empty string are falsy.\<close>

fun truthy :: "pystr option \<Rightarrow> bool" where
  "truthy None = False"
| "truthy (Some s) = (s \<noteq> [])"

text \<open>\<open>a or b\<close> on optional strings: \<open>a\<close> when it is truthy, \<open>b\<close> otherwise.\<close>

definition py_or :: "pystr option \<Rightarrow> pystr option \<Rightarrow> pystr option" where
  "py_or a b = (if truthy a then a else b)"

text \<open>\<open>s.replace(old, new)\<close> for a pattern \<open>old\<close> of one character.\<close>

definition str_replace1 :: "codepoint \<Rightarrow> pystr \<Rightarrow> pystr \<Rightarrow> pystr" where
  "str_replace1 old new s = concat (map (\<lambda>c. if c = old then new else [c]) s)"

text \<open>\<open>sep.join(xs)\<close>.\<close>

fun str_join :: "pystr \<Rightarrow> pystr list \<Rightarrow> pystr" where
  "str_join sep [] = []"
| "str_join sep [x] = x"
| "str_join sep (x # y # r) = x @ sep @ str_join sep (y # r)"

text \<open>\<open>str.isspace\<close> on one character: the code points Python strips with \<open>strip()\<close>.\<close>

definition py_isspace :: "codepoint \<Rightarrow> bool" where
  "py_isspace c =
     ((9 \<le> c \<and> c \<le> 13) \<or> (28 \<le> c \<and> c \<le> 32) \<or> c = 133 \<or> c = 160 \<or> c = 5760 \<or>
      (8192 \<le> c \<and> c \<le> 8202) \<or> c = 8232 \<or> c = 8233 \<or> c = 8239 \<or> c = 8287 \<or> c = 12288)"

definition str_strip :: "pystr \<Rightarrow> pystr" where
  "str_strip s = rev (dropWhile py_isspace (rev (dropWhile py_isspace s)))"

text \<open>\<open>s.lstrip(c)\<close> for one character, \<open>s.startswith(p)\<close> and \<open>s.split(c)\<close>.\<close>

definition str_lstrip1 :: "codepoint \<Rightarrow> pystr \<Rightarrow> pystr" where
  "str_lstrip1 c s = dropWhile (\<lambda>x. x = c) s"

definition startswith :: "pystr \<Rightarrow> pystr \<Rightarrow> bool" where
  "startswith s p = (take (length p) s = p)"

fun str_split1 :: "codepoint \<Rightarrow> pystr \<Rightarrow> pystr list" where
  "str_split1 c [] = [[]]"
| "str_split1 c (x # xs) =
     (if x = c then [] # str_split1 c xs
      else (case str_split1 c xs of
              h # t \<Rightarrow> (x # h) # t
            | [] \<Rightarrow> [[x]]))"

text \<open>\<open>os.path.join(a, b)\<close> on POSIX paths: an absolute \<open>b\<close> replaces \<open>a\<close>.\<close>

definition os_path_join :: "pystr \<Rightarrow> pystr \<Rightarrow> pystr" where
  "os_path_join a b =
     (if b \<noteq> [] \<and> hd b = SLASH then b
      else if a = [] \<or> last a = SLASH then a @ b
      else a @ [SLASH] @ b)"

section \<open>Regular expressions of the \<open>re\<close> module\<close>

text \<open>
  The three patterns of the program, \<open>\[.*\]\<close>, \<open>\*\*(.*?)\*\*\<close> and \<open>\*(.*?)\*\<close>,
  are sequences of literal characters and of one starred dot, greedy or lazy. \<open>.\<close>
  matches every character but the newline, and every character under \<open>re.DOTALL\<close>.
  \<open>match_here\<close> is the backtracking matcher of \<open>re\<close> anchored at the start of the
  text: it returns the first match in the engine's order of preference, as the list of
  the pieces of text each atom consumed (so the piece of the starred dot is the group).
\<close>

datatype dot = Dot | DotAll

fun dot_matches :: "dot \<Rightarrow> codepoint \<Rightarrow> bool" where
  "dot_matches Dot c = (c \<noteq> NEWLINE)"
| "dot_matches DotAll c = True"

datatype atom = Lit codepoint | StarGreedy dot | StarLazy dot

fun match_here :: "atom list \<Rightarrow> pystr \<Rightarrow> pystr list option" where
  "match_here [] s = Some []"
| "match_here (Lit c # r) [] = None"
| "match_here (Lit c # r) (x # xs) =
     (if x = c then map_option ((#) [x]) (match_here r xs) else None)"
| "match_here (StarGreedy d # r) [] = map_option ((#) []) (match_here r [])"
| "match_here (StarGreedy d # r) (x # xs) =
     (case (if dot_matches d x then match_here (StarGreedy d # r) xs else None) of
        Some (p # ps) \<Rightarrow> Some ((x # p) # ps)
      | _ \<Rightarrow> map_option ((#) []) (match_here r (x # xs)))"
| "match_here (StarLazy d # r) s =
     (case match_here r s of
        Some ps \<Rightarrow> Some ([] # ps)
      | None \<Rightarrow>
          (case s of
             [] \<Rightarrow> None
           | x # xs \<Rightarrow>
               (if dot_matches d x
                then (case match_here (StarLazy d # r) xs of
                        Some (p # ps) \<Rightarrow> Some ((x # p) # ps)
                      | _ \<Rightarrow> None)
                else None)))"

text \<open>
  \<open>re.search\<close>: the match at the leftmost position that has one, with the text before
  it. \<open>re.sub\<close>: the non-overlapping matches from left to right, each replaced; an empty
  match is replaced and the scan moves on by one character.
\<close>

fun re_search :: "atom list \<Rightarrow> pystr \<Rightarrow> (pystr \<times> pystr list) option" where
  "re_search p [] = map_option (Pair []) (match_here p [])"
| "re_search p (x # xs) =
     (case match_here p (x # xs) of
        Some ps \<Rightarrow> Some ([], ps)
      | None \<Rightarrow> map_option (\<lambda>(pre, ps). (x # pre, ps)) (re_search p xs))"

fun re_sub :: "atom list \<Rightarrow> (pystr list \<Rightarrow> pystr) \<Rightarrow> pystr \<Rightarrow> pystr" where
  "re_sub p repl [] = (case match_here p [] of Some ps \<Rightarrow> repl ps | None \<Rightarrow> [])"
| "re_sub p repl (x # xs) =
     (case match_here p (x # xs) of
        None \<Rightarrow> x # re_sub p repl xs
      | Some ps \<Rightarrow>
          (if concat ps = [] then repl ps @ x # re_sub p repl xs
           else repl ps @ re_sub p repl (drop (length (concat ps)) (x # xs))))"

section \<open>Response extractor (\<open>content_gen._extract_json_from_text\<close>)\<close>

text \<open>\<open>re.search(r'\[.*\]', text, re.DOTALL)\<close>, then \<open>match.group(0) if match else text\<close>.\<close>

definition json_array_re :: "atom list" where
  "json_array_re = [Lit LBRACKET, StarGreedy DotAll, Lit RBRACKET]"

definition extract_json_from_text :: "pystr \<Rightarrow> pystr" where
  "extract_json_from_text s =
     (case re_search json_array_re s of
        Some (pre, ps) \<Rightarrow> concat ps
      | None \<Rightarrow> s)"

section \<open>Markdown to markup (\<open>pdf_maker._md_to_html_tags\<close>)\<close>

text \<open>
  \<open>re.sub(r'\*\*(.*?)\*\*', r'<b>\1</b>', text)\<close> and then
  \<open>re.sub(r'\*(.*?)\*', r'<i>\1</i>', text)\<close>; neither has \<open>re.DOTALL\<close>.
\<close>

definition bold_re :: "atom list" where
  "bold_re = [Lit STAR, Lit STAR, StarLazy Dot, Lit STAR, Lit STAR]"

definition italic_re :: "atom list" where
  "italic_re = [Lit STAR, StarLazy Dot, Lit STAR]"

definition bold_repl :: "pystr list \<Rightarrow> pystr" where
  "bold_repl ps = str ''<b>'' @ ps ! 2 @ str ''</b>''"

definition italic_repl :: "pystr list \<Rightarrow> pystr" where
  "italic_repl ps = str ''<i>'' @ ps ! 1 @ str ''</i>''"

definition md_to_html_tags :: "pystr \<Rightarrow> pystr" where
  "md_to_html_tags s = re_sub italic_re italic_repl (re_sub bold_re bold_repl s)"

text \<open>
  Three notions used to state which inputs the conversion handles: a text
  \<open>has_marker\<close> when it holds two adjacent asterisks (a bold marker); \<open>last_line\<close> is
  the part of a text after its last line break; \<open>bold_sub\<close> and \<open>italic_sub\<close> name the two
  substitutions.
\<close>

fun has_marker :: "pystr \<Rightarrow> bool" where
  "has_marker (x # y # r) = ((x = STAR \<and> y = STAR) \<or> has_marker (y # r))"
| "has_marker [x] = False"
| "has_marker [] = False"

definition last_line :: "pystr \<Rightarrow> pystr" where
  "last_line s = rev (takeWhile (\<lambda>c. c \<noteq> NEWLINE) (rev s))"

abbreviation bold_sub :: "pystr \<Rightarrow> pystr" where
  "bold_sub s \<equiv> re_sub bold_re bold_repl s"

abbreviation italic_sub :: "pystr \<Rightarrow> pystr" where
  "italic_sub s \<equiv> re_sub italic_re italic_repl s"

text \<open>The tail of the italic pattern after its opening asterisk.\<close>

abbreviation lazy_close :: "pystr \<Rightarrow> pystr list option" where
  "lazy_close s \<equiv> match_here [StarLazy Dot, Lit STAR] s"

section \<open>Errors\<close>

text \<open>
  Every exception the modelled code raises is a value. \<open>RuntimeError e\<close> is the
  \<open>RuntimeError\<close> that \<open>generate_stream\<close> raises \<open>from e\<close>; \<open>PlanValueError e raw\<close> is
  the \<open>ValueError\<close> of \<open>generate_content_plan\<close>, whose message holds the text of \<open>e\<close> and
  the raw response. \<open>SDKError n\<close> stands for any exception of the GigaChat SDK or of the
  network below it, \<open>ReportLabError n\<close> for any exception of the ReportLab library, and
  \<open>SecretsNotFoundError\<close> is the error Streamlit raises when \<open>st.secrets\<close> is read and no
  secrets file exists.
\<close>

datatype py_error =
    FileNotFoundError pystr
  | CredentialsValueError
  | FormatError
  | SDKError nat
  | SecretsNotFoundError
  | ReportLabError nat
  | RuntimeError py_error
  | JSONDecodeError
  | ValidationError
  | TypeError
  | PlanValueError py_error pystr

section \<open>Configuration and the outside world\<close>

text \<open>
  \<open>st.secrets["gigachat"]\<close>, the process environment and \<open>st.session_state\<close>, each with
  the keys the program reads; an absent key is \<open>None\<close>. The secret store is either
  absent (no secrets file that Streamlit can read: every read of \<open>st.secrets\<close> raises) or
  a file that may hold the section \<open>gigachat\<close>.
\<close>

record secrets_section =
  sec_credentials :: "pystr option"
  sec_scope :: "pystr option"
  sec_model :: "pystr option"
  sec_ca_bundle_file :: "pystr option"
  sec_verify_ssl :: "bool option"

datatype secrets_store = NoSecretsFile | SecretsFile "secrets_section option"

record env_vars =
  GIGACHAT_CREDENTIALS :: "pystr option"
  GIGACHAT_SCOPE :: "pystr option"
  GIGACHAT_MODEL :: "pystr option"
  GIGACHAT_CA_BUNDLE_FILE :: "pystr option"

record session =
  llm_model :: "pystr option"
  llm_temperature :: "real option"

text \<open>
  The client object built by \<open>GigaChat(...)\<close> and the request \<open>Chat(...)\<close>. A
  temperature is a Python float; the program only passes temperatures on and tests them
  for truthiness, so each is modelled by the real number it denotes.
\<close>

record gigachat_client =
  credentials :: "pystr option"
  scope :: "pystr option"
  client_model :: "pystr option"
  ca_bundle_file :: "pystr option"
  verify_ssl_certs :: bool

datatype role = USER

record chat =
  messages :: "(role \<times> pystr) list"
  temperature :: real
  max_tokens :: nat
  model :: pystr

text \<open>
  A chunk of the response stream: its choices, each with the \<open>delta.content\<close> it carries
  (which may be \<open>None\<close>).
\<close>

record choice =
  delta_content :: "pystr option"

record chunk =
  choices :: "choice list"

text \<open>JSON values, as \<open>json.loads\<close> returns them.\<close>

datatype json =
    JNull
  | JBool bool
  | JNumber real
  | JString pystr
  | JArray "json list"
  | JObject "(pystr \<times> json) list"

text \<open>
  What the program reads from outside: the file system, the configuration, the
  transport, and two functions of the Python library that are taken as they are.
  \<open>giga_stream w giga chat\<close> is the deterministic transport: the chunks that
  \<open>giga.stream(chat)\<close> delivers, in arrival order, and the exception that ends the
  stream, if one does. \<open>py_format\<close> is \<open>str.format\<close> with keyword arguments and
  \<open>json_loads\<close> is \<open>json.loads\<close> (\<open>None\<close> for \<open>JSONDecodeError\<close>).
\<close>

record world =
  BASE_DIR :: pystr
  path_exists :: "pystr \<Rightarrow> bool"
  read_text :: "pystr \<Rightarrow> pystr"
  secrets :: secrets_store
  environ :: env_vars
  session_state :: session
  giga_stream :: "gigachat_client \<Rightarrow> chat \<Rightarrow> chunk list \<times> py_error option"
  py_format :: "pystr \<Rightarrow> (pystr \<times> pystr) list \<Rightarrow> py_error + pystr"
  json_loads :: "pystr \<Rightarrow> json option"

section \<open>Model client (\<open>services/llm_client.py\<close>)\<close>

definition PROMPTS_DIR :: "world \<Rightarrow> pystr" where
  "PROMPTS_DIR w = os_path_join (os_path_join (BASE_DIR w) (str ''assets'')) (str ''prompts'')"

definition DEFAULT_temperature :: real where
  "DEFAULT_temperature = 0.7"

definition DEFAULT_max_tokens :: nat where
  "DEFAULT_max_tokens = 4000"

definition load_prompt :: "world \<Rightarrow> pystr \<Rightarrow> py_error + pystr" where
  "load_prompt w template_name =
     (let file_path = os_path_join (PROMPTS_DIR w) (template_name @ str ''.txt'')
      in if \<not> path_exists w file_path then Inl (FileNotFoundError file_path)
         else Inr (read_text w file_path))"

text \<open>
  \<open>st.secrets.get("gigachat", {})\<close>: with no secrets file the read raises; in a secrets
  file an absent section is the empty dictionary.
\<close>

definition empty_section :: secrets_section where
  "empty_section =
     \<lparr>sec_credentials = None, sec_scope = None, sec_model = None,
      sec_ca_bundle_file = None, sec_verify_ssl = None\<rparr>"

definition gigachat_secrets :: "world \<Rightarrow> py_error + secrets_section" where
  "gigachat_secrets w =
     (case secrets w of
        NoSecretsFile \<Rightarrow> Inl SecretsNotFoundError
      | SecretsFile None \<Rightarrow> Inr empty_section
      | SecretsFile (Some sec) \<Rightarrow> Inr sec)"

text \<open>\<open>os.getenv(key, default)\<close> on a variable that has been looked up.\<close>

definition getenv_default :: "pystr option \<Rightarrow> pystr \<Rightarrow> pystr" where
  "getenv_default v d = (case v of None \<Rightarrow> d | Some x \<Rightarrow> x)"

definition get_gigachat_client :: "world \<Rightarrow> py_error + gigachat_client" where
  "get_gigachat_client w =
     (case gigachat_secrets w of
        Inl e \<Rightarrow> Inl e
      | Inr sec \<Rightarrow>
          (let creds = py_or (sec_credentials sec) (GIGACHAT_CREDENTIALS (environ w))
           in if \<not> truthy creds then Inl CredentialsValueError
              else
                (let scp = py_or (sec_scope sec)
                             (Some (getenv_default (GIGACHAT_SCOPE (environ w))
                                      (str ''GIGACHAT_API_PERS'')));
                     mdl = (case llm_model (session_state w) of
                              Some m \<Rightarrow> Some m
                            | None \<Rightarrow>
                                py_or (sec_model sec)
                                  (Some (getenv_default (GIGACHAT_MODEL (environ w))
                                           (str ''GigaChat-2-Max''))));
                     ca0 = py_or (sec_ca_bundle_file sec) (GIGACHAT_CA_BUNDLE_FILE (environ w));
                     ca = (if truthy ca0 then map_option (os_path_join (BASE_DIR w)) ca0 else ca0);
                     verify_ssl = (if truthy ca0 then True
                                   else (case sec_verify_ssl sec of None \<Rightarrow> False | Some b \<Rightarrow> b))
                 in Inr \<lparr>credentials = creds, scope = scp, client_model = mdl,
                         ca_bundle_file =
                           (case ca of
                              Some p \<Rightarrow> if p \<noteq> [] \<and> path_exists w p then Some p else None
                            | None \<Rightarrow> None),
                         verify_ssl_certs = verify_ssl\<rparr>)))"

text \<open>
  The body of the \<open>for\<close> loop of \<open>generate_stream\<close>: a chunk yields its first choice's
  content when it has a choice and that content is truthy.
\<close>

fun stream_loop :: "chunk list \<Rightarrow> pystr list" where
  "stream_loop [] = []"
| "stream_loop (ch # rest) =
     (case choices ch of
        [] \<Rightarrow> stream_loop rest
      | c # _ \<Rightarrow>
          (if truthy (delta_content c) then the (delta_content c) # stream_loop rest
           else stream_loop rest))"

text \<open>
  A generator, run to its end: the fragments it yields in order, the exception that ends
  it (\<open>None\<close> when it is exhausted normally), and the requests it has sent to the API.
\<close>

record generator =
  yielded :: "pystr list"
  raised :: "py_error option"
  requests :: "(gigachat_client \<times> chat) list"

text \<open>\<open>temperature or st.session_state.get("llm_temperature", 0.7)\<close>: 0.0 and \<open>None\<close> are falsy.\<close>

definition generate_stream :: "world \<Rightarrow> pystr \<Rightarrow> real option \<Rightarrow> generator" where
  "generate_stream w prompt temperature_arg =
     (let session_temp = (case llm_temperature (session_state w) of
                            Some t \<Rightarrow> t
                          | None \<Rightarrow> DEFAULT_temperature);
          temp = (case temperature_arg of
                    Some t \<Rightarrow> if t \<noteq> 0 then t else session_temp
                  | None \<Rightarrow> session_temp);
          model_name = (case llm_model (session_state w) of
                          Some m \<Rightarrow> m
                        | None \<Rightarrow> str ''GigaChat-2-Max'')
      in case get_gigachat_client w of
           Inl e \<Rightarrow> \<lparr>yielded = [], raised = Some (RuntimeError e), requests = []\<rparr>
         | Inr giga \<Rightarrow>
             (let request = \<lparr>messages = [(USER, prompt)], temperature = temp,
                              max_tokens = DEFAULT_max_tokens, model = model_name\<rparr>;
                  response_stream = giga_stream w giga request
              in \<lparr>yielded = stream_loop (fst response_stream),
                  raised = map_option RuntimeError (snd response_stream),
                  requests = [(giga, request)]\<rparr>))"

text \<open>
  \<open>list(g)\<close> drains a generator: the exception that ends it propagates, otherwise the
  list of its fragments is returned. \<open>generate_sync\<close> is \<open>"".join(list(generate_stream(...)))\<close>.
\<close>

definition py_list :: "generator \<Rightarrow> py_error + pystr list" where
  "py_list g = (case raised g of Some e \<Rightarrow> Inl e | None \<Rightarrow> Inr (yielded g))"

definition generate_sync :: "world \<Rightarrow> pystr \<Rightarrow> real option \<Rightarrow> py_error + pystr" where
  "generate_sync w prompt temperature_arg =
     (case py_list (generate_stream w prompt temperature_arg) of
        Inl e \<Rightarrow> Inl e
      | Inr fragments \<Rightarrow> Inr (str_join [] fragments))"

section \<open>Content service (\<open>services/content_gen.py\<close>)\<close>

text \<open>
  Modelled from the spec: the schemas \<open>ContentPlan\<close> and \<open>ContentPlanItem\<close> of
  \<open>src/models/schemas.py\<close>, which the content service imports and which is not among the
  sources. A content plan is an ordered sequence of items held in the field \<open>items\<close>
  (the field the code reads and wraps); the schema of one item is the parameter
  \<open>item_schema\<close>, which returns the validated item or \<open>None\<close> for a validation error.
  \<open>ContentPlan(**kwargs).items\<close> validates every element of \<open>items\<close> in order.
\<close>

definition ContentPlan_items :: "(json \<Rightarrow> 'item option) \<Rightarrow> (pystr \<times> json) list \<Rightarrow> 'item list option" where
  "ContentPlan_items item_schema kwargs =
     (case map_of kwargs (str ''items'') of
        Some (JArray xs) \<Rightarrow> those (map item_schema xs)
      | _ \<Rightarrow> None)"

text \<open>\<open>if isinstance(parsed_data, list): parsed_data = {"items": parsed_data}\<close>.\<close>

definition wrap_list :: "json \<Rightarrow> json" where
  "wrap_list parsed_data =
     (case parsed_data of
        JArray xs \<Rightarrow> JObject [(str ''items'', JArray xs)]
      | other \<Rightarrow> other)"

text \<open>
  The \<open>try\<close> block of \<open>generate_content_plan\<close>: \<open>JSONDecodeError\<close> and \<open>ValidationError\<close>
  are caught and raised again as a \<open>ValueError\<close> that carries the raw response; unpacking
  a value that is no mapping with \<open>**\<close> is a \<open>TypeError\<close>, which is not caught.
\<close>

definition parse_plan :: "world \<Rightarrow> (json \<Rightarrow> 'item option) \<Rightarrow> pystr \<Rightarrow> pystr \<Rightarrow> py_error + 'item list" where
  "parse_plan w item_schema raw_response clean_json_str =
     (case json_loads w clean_json_str of
        None \<Rightarrow> Inl (PlanValueError JSONDecodeError raw_response)
      | Some parsed_data \<Rightarrow>
          (case wrap_list parsed_data of
             JObject kwargs \<Rightarrow>
               (case ContentPlan_items item_schema kwargs of
                  None \<Rightarrow> Inl (PlanValueError ValidationError raw_response)
                | Some its \<Rightarrow> Inr its)
           | _ \<Rightarrow> Inl TypeError))"

definition generate_content_plan ::
  "world \<Rightarrow> (json \<Rightarrow> 'item option) \<Rightarrow> pystr \<Rightarrow> pystr \<Rightarrow> pystr \<Rightarrow> pystr \<Rightarrow> py_error + 'item list" where
  "generate_content_plan w item_schema niche period channels extra_context =
     (case load_prompt w (str ''content_plan'') of
        Inl e \<Rightarrow> Inl e
      | Inr prompt_template \<Rightarrow>
          (case py_format w prompt_template
                  [(str ''niche'', niche), (str ''period'', period),
                   (str ''channels'', channels), (str ''extra_context'', extra_context)] of
             Inl e \<Rightarrow> Inl e
           | Inr final_prompt \<Rightarrow>
               (case generate_sync w final_prompt (Some 0.3) of
                  Inl e \<Rightarrow> Inl e
                | Inr raw_response \<Rightarrow>
                    parse_plan w item_schema raw_response (extract_json_from_text raw_response))))"

text \<open>
  The three streaming kinds. \<open>load_prompt\<close> and \<open>format\<close> run at the call, so their
  exceptions are the call's; the generator is returned.
\<close>

definition generate_broadcast_stream ::
  "world \<Rightarrow> pystr \<Rightarrow> pystr \<Rightarrow> pystr \<Rightarrow> pystr \<Rightarrow> pystr \<Rightarrow> py_error + generator" where
  "generate_broadcast_stream w channel business_niche topic tone brand_keywords =
     (case load_prompt w (str ''broadcasts'') of
        Inl e \<Rightarrow> Inl e
      | Inr prompt_template \<Rightarrow>
          (case py_format w prompt_template
                  [(str ''channel'', channel), (str ''business_niche'', business_niche),
                   (str ''topic'', topic), (str ''tone'', tone),
                   (str ''brand_keywords'', brand_keywords)] of
             Inl e \<Rightarrow> Inl e
           | Inr final_prompt \<Rightarrow> Inr (generate_stream w final_prompt (Some 0.7))))"

definition generate_lead_magnet_stream ::
  "world \<Rightarrow> pystr \<Rightarrow> pystr \<Rightarrow> pystr \<Rightarrow> pystr \<Rightarrow> pystr \<Rightarrow> py_error + generator" where
  "generate_lead_magnet_stream w lm_type topic audience length_arg business_niche =
     (case load_prompt w (str ''lead_magnets'') of
        Inl e \<Rightarrow> Inl e
      | Inr prompt_template \<Rightarrow>
          (case py_format w prompt_template
                  [(str ''lm_type'', lm_type), (str ''topic'', topic),
                   (str ''audience'', audience), (str ''length'', length_arg),
                   (str ''business_niche'', business_niche)] of
             Inl e \<Rightarrow> Inl e
           | Inr final_prompt \<Rightarrow> Inr (generate_stream w final_prompt (Some 0.7))))"

definition generate_seo_article_stream ::
  "world \<Rightarrow> pystr \<Rightarrow> pystr \<Rightarrow> pystr \<Rightarrow> pystr \<Rightarrow> py_error + generator" where
  "generate_seo_article_stream w business_niche topic target_keywords length_arg =
     (case load_prompt w (str ''seo_articles'') of
        Inl e \<Rightarrow> Inl e
      | Inr prompt_template \<Rightarrow>
          (case py_format w prompt_template
                  [(str ''business_niche'', business_niche), (str ''topic'', topic),
                   (str ''target_keywords'', target_keywords), (str ''length'', length_arg)] of
             Inl e \<Rightarrow> Inl e
           | Inr final_prompt \<Rightarrow> Inr (generate_stream w final_prompt (Some 0.8))))"

text \<open>The temperatures of the requests a streaming call sends (none when the call raises).\<close>

definition sent_temperatures :: "py_error + generator \<Rightarrow> real list" where
  "sent_temperatures r =
     (case r of Inl e \<Rightarrow> [] | Inr g \<Rightarrow> map (\<lambda>(giga, request). temperature request) (requests g))"

section \<open>PDF export (\<open>services/pdf_maker.py\<close>)\<close>

text \<open>
  The state of the process that the PDF maker touches: its flag \<open>_FONTS_REGISTERED\<close>,
  the fonts registered with \<open>pdfmetrics.registerFont\<close>, and the table that
  \<open>addMapping(family, bold, italic, name)\<close> fills.
\<close>

record pdf_state =
  FONTS_REGISTERED :: bool
  registered_fonts :: "pystr list"
  font_mapping :: "pystr \<times> nat \<times> nat \<Rightarrow> pystr option"

definition FONTS_DIR :: "world \<Rightarrow> pystr" where
  "FONTS_DIR w = os_path_join (os_path_join (BASE_DIR w) (str ''assets'')) (str ''fonts'')"

definition FONT_FAMILY :: pystr where
  "FONT_FAMILY = str ''Roboto''"

definition FONT_REGULAR :: "world \<Rightarrow> pystr" where
  "FONT_REGULAR w = os_path_join (FONTS_DIR w) (str ''Roboto-Regular.ttf'')"

definition FONT_BOLD :: "world \<Rightarrow> pystr" where
  "FONT_BOLD w = os_path_join (FONTS_DIR w) (str ''Roboto-Bold.ttf'')"

definition registerFont :: "pystr \<Rightarrow> pdf_state \<Rightarrow> pdf_state" where
  "registerFont name st = st\<lparr>registered_fonts := name # registered_fonts st\<rparr>"

definition addMapping :: "pystr \<Rightarrow> nat \<Rightarrow> nat \<Rightarrow> pystr \<Rightarrow> pdf_state \<Rightarrow> pdf_state" where
  "addMapping family bold italic name st =
     st\<lparr>font_mapping := (font_mapping st)((family, bold, italic) \<mapsto> name)\<rparr>"

text \<open>
  The paragraph styles and the flowables of the story of \<open>generate_pdf\<close>.
\<close>

datatype alignment = TA_CENTER | TA_JUSTIFY | TA_LEFT

record paragraph_style =
  style_name :: pystr
  parent :: pystr
  fontName :: pystr
  fontSize :: nat
  spaceBefore :: "nat option"
  spaceAfter :: nat
  leading :: "nat option"
  align :: alignment

datatype flowable = Paragraph pystr paragraph_style | Spacer nat nat

text \<open>
  What ReportLab does is taken as it is, as three functions: \<open>ttfont_error name path\<close> is
  the exception of \<open>TTFont(name, path)\<close> on an existing file (\<open>None\<close> when the font
  loads), \<open>paragraph_error st text style\<close> is the exception of \<open>Paragraph(text, style)\<close>,
  which parses the markup of its text when it is built and raises on markup it cannot
  read (crossed or unclosed tags, a font it cannot resolve), and \<open>build_error st story\<close>
  is the exception of \<open>doc.build(story)\<close>. Each is identified by a number and reaches
  the caller as \<open>ReportLabError\<close>.
\<close>

record reportlab =
  ttfont_error :: "pystr \<Rightarrow> pystr \<Rightarrow> nat option"
  paragraph_error :: "pdf_state \<Rightarrow> pystr \<Rightarrow> paragraph_style \<Rightarrow> nat option"
  build_error :: "pdf_state \<Rightarrow> flowable list \<Rightarrow> nat option"

definition setup_fonts :: "reportlab \<Rightarrow> world \<Rightarrow> pdf_state \<Rightarrow> py_error option \<times> pdf_state" where
  "setup_fonts lib w st =
     (if FONTS_REGISTERED st then (None, st)
      else if \<not> path_exists w (FONT_REGULAR w) then (Some (FileNotFoundError (FONT_REGULAR w)), st)
      else
        (let regular = FONT_FAMILY @ str ''-Regular'';
             bold = FONT_FAMILY @ str ''-Bold''
         in case ttfont_error lib regular (FONT_REGULAR w) of
              Some n \<Rightarrow> (Some (ReportLabError n), st)
            | None \<Rightarrow>
                (let st1 = registerFont regular st
                 in if path_exists w (FONT_BOLD w) then
                      (case ttfont_error lib bold (FONT_BOLD w) of
                         Some n \<Rightarrow> (Some (ReportLabError n), st1)
                       | None \<Rightarrow>
                           (None,
                            (addMapping FONT_FAMILY 1 1 bold
                              (addMapping FONT_FAMILY 0 1 regular
                                (addMapping FONT_FAMILY 1 0 bold
                                  (addMapping FONT_FAMILY 0 0 regular
                                    (registerFont bold st1)))))
                            \<lparr>FONTS_REGISTERED := True\<rparr>))
                    else
                      (None,
                       (addMapping FONT_FAMILY 1 1 regular
                         (addMapping FONT_FAMILY 0 1 regular
                           (addMapping FONT_FAMILY 1 0 regular
                             (addMapping FONT_FAMILY 0 0 regular st1))))
                       \<lparr>FONTS_REGISTERED := True\<rparr>))))"

definition title_style :: "pystr \<Rightarrow> paragraph_style" where
  "title_style font_bold =
     \<lparr>style_name = str ''CustomTitle'', parent = str ''Title'', fontName = font_bold,
      fontSize = 18, spaceBefore = None, spaceAfter = 20, leading = None, align = TA_CENTER\<rparr>"

definition h2_style :: "pystr \<Rightarrow> paragraph_style" where
  "h2_style font_bold =
     \<lparr>style_name = str ''CustomH2'', parent = str ''Heading2'', fontName = font_bold,
      fontSize = 14, spaceBefore = Some 15, spaceAfter = 10, leading = None, align = TA_LEFT\<rparr>"

definition body_style :: "pystr \<Rightarrow> paragraph_style" where
  "body_style font_reg =
     \<lparr>style_name = str ''CustomBody'', parent = str ''Normal'', fontName = font_reg,
      fontSize = 11, spaceBefore = None, spaceAfter = 8, leading = Some 15, align = TA_JUSTIFY\<rparr>"

definition para_flowables :: "pystr \<Rightarrow> pystr \<Rightarrow> pystr \<Rightarrow> flowable list" where
  "para_flowables font_reg font_bold para0 =
     (let para = str_strip para0
      in if para = [] then []
         else if startswith para (str ''##'') then
           [Paragraph (md_to_html_tags (str_strip (str_lstrip1 HASH para))) (h2_style font_bold)]
         else if startswith para (str ''#'') then
           [Paragraph (md_to_html_tags (str_strip (str_lstrip1 HASH para))) (title_style font_bold)]
         else [Paragraph (md_to_html_tags para) (body_style font_reg)])"

definition section_flowables :: "pystr \<Rightarrow> pystr \<Rightarrow> pystr \<Rightarrow> flowable list" where
  "section_flowables font_reg font_bold sec =
     concat (map (para_flowables font_reg font_bold) (str_split1 NEWLINE sec)) @ [Spacer 1 15]"

text \<open>
  The paragraphs of the story are built in order, the title first, and the first
  \<open>Paragraph(...)\<close> that raises ends the call; spacers do not raise.
\<close>

fun first_paragraph_error :: "reportlab \<Rightarrow> pdf_state \<Rightarrow> flowable list \<Rightarrow> nat option" where
  "first_paragraph_error lib st [] = None"
| "first_paragraph_error lib st (Paragraph t sty # rest) =
     (case paragraph_error lib st t sty of
        Some n \<Rightarrow> Some n
      | None \<Rightarrow> first_paragraph_error lib st rest)"
| "first_paragraph_error lib st (Spacer a b # rest) = first_paragraph_error lib st rest"

text \<open>
  \<open>generate_pdf\<close> returns the outcome and the state of the process after the call. The
  outcome of a successful call is the story that was built: the bytes are what
  ReportLab writes for it.
\<close>

definition generate_pdf ::
  "reportlab \<Rightarrow> world \<Rightarrow> pdf_state \<Rightarrow> pystr \<Rightarrow> pystr list \<Rightarrow> (py_error + flowable list) \<times> pdf_state" where
  "generate_pdf lib w st title sections =
     (case setup_fonts lib w st of
        (Some e, st') \<Rightarrow> (Inl e, st')
      | (None, st') \<Rightarrow>
          (let font_reg = FONT_FAMILY @ str ''-Regular'';
               font_bold = (if path_exists w (FONT_BOLD w) then FONT_FAMILY @ str ''-Bold''
                            else font_reg);
               clean_title = str_strip (str_replace1 HASH [] (md_to_html_tags title));
               story = Paragraph clean_title (title_style font_bold)
                       # concat (map (section_flowables font_reg font_bold) sections)
           in case first_paragraph_error lib st' story of
                Some n \<Rightarrow> (Inl (ReportLabError n), st')
              | None \<Rightarrow>
                  (case build_error lib st' story of
                     Some n \<Rightarrow> (Inl (ReportLabError n), st')
                   | None \<Rightarrow> (Inr story, st'))))"

text \<open>The fonts a story names in its paragraph styles.\<close>

fun flowable_fonts :: "flowable \<Rightarrow> pystr list" where
  "flowable_fonts (Paragraph t sty) = [fontName sty]"
| "flowable_fonts (Spacer a b) = []"

definition story_fonts :: "flowable list \<Rightarrow> pystr set" where
  "story_fonts story = set (concat (map flowable_fonts story))"

text \<open>The state of a process that has not rendered a PDF yet.\<close>

definition fresh_pdf_state :: pdf_state where
  "fresh_pdf_state = \<lparr>FONTS_REGISTERED = False, registered_fonts = [], font_mapping = Map.empty\<rparr>"

text \<open>A ReportLab that loads every font file and accepts every paragraph and story.\<close>

definition accepting_reportlab :: reportlab where
  "accepting_reportlab =
     \<lparr>ttfont_error = (\<lambda>name path. None),
      paragraph_error = (\<lambda>st t sty. None),
      build_error = (\<lambda>st story. None)\<rparr>"

section \<open>HTML export (\<open>views/longread_tab.create_html_export\<close>)\<close>

text \<open>
  \<open>safe_md = markdown_text.replace("`", "\\`").replace("$", "\\$")\<close>: a backslash is put
  before every backtick and every dollar sign; nothing else is changed.
\<close>

definition safe_md :: "pystr \<Rightarrow> pystr" where
  "safe_md markdown_text =
     str_replace1 DOLLAR [BACKSLASH, DOLLAR] (str_replace1 BACKTICK [BACKSLASH, BACKTICK] markdown_text)"

text \<open>
  The page template, in the three pieces around the title and the escaped text. \<open>nl\<close>
  joins lines; \<open>34\<close> is the double quote; the text of the placeholder \<open>div\<close> is Russian.
\<close>

definition nl :: "pystr list \<Rightarrow> pystr" where
  "nl ls = str_join [NEWLINE] ls"

definition html_before_title :: pystr where
  "html_before_title = nl
     [str ''<!DOCTYPE html>'',
      str ''<html lang='' @ [34] @ str ''ru'' @ [34] @ str ''>'',
      str ''<head>'',
      str ''    <meta charset='' @ [34] @ str ''UTF-8'' @ [34] @ str ''>'',
      str ''    <meta name='' @ [34] @ str ''viewport'' @ [34] @ str '' content='' @ [34]
        @ str ''width=device-width, initial-scale=1.0'' @ [34] @ str ''>'',
      str ''    <title>'']"

definition html_before_text :: pystr where
  "html_before_text = nl
     [str ''</title>'',
      str ''    <style>'',
      str ''        body {'',
      str ''            font-family: -apple-system, BlinkMacSystemFont, '' @ [34] @ str ''Segoe UI''
        @ [34] @ str '', Roboto, Helvetica, Arial, sans-serif;'',
      str ''            line-height: 1.6;'',
      str ''            color: #333;'',
      str ''            max-width: 800px;'',
      str ''            margin: 0 auto;'',
      str ''            padding: 40px 20px;'',
      str ''        }'',
      str ''        h1, h2, h3 { color: #2c3e50; margin-top: 1.5em; }'',
      str ''        code { background: #f4f4f4; padding: 2px 5px; border-radius: 4px; }'',
      str ''        pre { background: #f4f4f4; padding: 15px; border-radius: 8px; overflow-x: auto; }'',
      str ''        blockquote { border-left: 4px solid #6c63ff; margin-left: 0; padding-left: 15px; color: #555; }'',
      str ''    </style>'',
      str ''    <script src='' @ [34] @ str ''https://cdn.jsdelivr.net/npm/marked/marked.min.js''
        @ [34] @ str ''></script>'',
      str ''</head>'',
      str ''<body>'',
      str ''    <div id='' @ [34] @ str ''content'' @ [34] @ str ''>''
        @ [1047, 1072, 1075, 1088, 1091, 1079, 1082, 1072, 32,
           1082, 1086, 1085, 1090, 1077, 1085, 1090, 1072]
        @ str ''...</div>'',
      str ''    <script>'',
      str ''        const rawMarkdown = '' @ [BACKTICK]]"

definition html_after_text :: pystr where
  "html_after_text = nl
     [[BACKTICK] @ str '';'',
      str ''        document.getElementById('' @ [39] @ str ''content'' @ [39]
        @ str '').innerHTML = marked.parse(rawMarkdown);'',
      str ''    </script>'',
      str ''</body>'',
      str ''</html>'']"

definition create_html_export :: "pystr \<Rightarrow> pystr \<Rightarrow> pystr" where
  "create_html_export markdown_text title =
     html_before_title @ title @ html_before_text @ safe_md markdown_text @ html_after_text"

text \<open>
  How the viewer reads the text back: the value of a JavaScript template literal whose
  body is the given text (ECMAScript, template literal lexical components). The result
  is \<open>None\<close> when the body does not make one whole literal without substitution: an
  unescaped backtick ends the literal early, \<open>${\<close> opens a substitution, a backslash
  at the end escapes the closing backtick, and the digit, \<open>x\<close> and \<open>u\<close> escapes, which
  need further characters, are left out of the model. A carriage return in the body is
  read as a line feed.
\<close>

definition js_escape :: "codepoint \<Rightarrow> pystr option" where
  "js_escape e =
     (if e = 110 then Some [10]
      else if e = 116 then Some [9]
      else if e = 114 then Some [13]
      else if e = 98 then Some [8]
      else if e = 102 then Some [12]
      else if e = 118 then Some [11]
      else if e = 10 \<or> e = 13 \<or> e = 8232 \<or> e = 8233 then Some []
      else if (48 \<le> e \<and> e \<le> 57) \<or> e = 120 \<or> e = 117 then None
      else Some [e])"

fun js_template_value :: "pystr \<Rightarrow> pystr option" where
  "js_template_value [] = Some []"
| "js_template_value [c] =
     (if c = BACKTICK \<or> c = BACKSLASH then None
      else if c = 13 then Some [NEWLINE]
      else Some [c])"
| "js_template_value (c # d # r) =
     (if c = BACKTICK then None
      else if c = DOLLAR \<and> d = LBRACE then None
      else if c = BACKSLASH then
        (case js_escape d of
           None \<Rightarrow> None
         | Some v \<Rightarrow> map_option ((@) v) (js_template_value r))
      else if c = 13 \<and> d = NEWLINE then map_option ((#) NEWLINE) (js_template_value r)
      else if c = 13 then map_option ((#) NEWLINE) (js_template_value (d # r))
      else map_option ((#) c) (js_template_value (d # r)))"

section \<open>Example configurations\<close>

text \<open>
  A deployment with a credential and a default model in the secret store, nothing in the
  environment and no session override; every file exists and reads as its own path;
  \<open>format\<close> returns the template as it is; the API answers every request with three
  chunks, the second of which has no choice, and ends normally.
\<close>

definition content_chunk :: "pystr \<Rightarrow> chunk" where
  "content_chunk s = \<lparr>choices = [\<lparr>delta_content = Some s\<rparr>]\<rparr>"

definition example_secrets :: secrets_section where
  "example_secrets =
     \<lparr>sec_credentials = Some (str ''key''), sec_scope = None,
      sec_model = Some (str ''GigaChat-Pro''), sec_ca_bundle_file = None,
      sec_verify_ssl = None\<rparr>"

definition example_world :: world where
  "example_world =
     \<lparr>BASE_DIR = str ''/app'',
      path_exists = (\<lambda>p. True),
      read_text = (\<lambda>p. p),
      secrets = SecretsFile (Some example_secrets),
      environ = \<lparr>GIGACHAT_CREDENTIALS = None, GIGACHAT_SCOPE = None,
                 GIGACHAT_MODEL = None, GIGACHAT_CA_BUNDLE_FILE = None\<rparr>,
      session_state = \<lparr>llm_model = None, llm_temperature = None\<rparr>,
      giga_stream = (\<lambda>giga request.
                       ([content_chunk (str ''Hel''), \<lparr>choices = []\<rparr>, content_chunk (str ''lo'')],
                        None)),
      py_format = (\<lambda>template kwargs. Inr template),
      json_loads = (\<lambda>s. None)\<rparr>"



text \<open>
  The same deployment with an API that answers by the temperature of the request:
  \<open>cold\<close> below 0.5 and \<open>warm\<close> from 0.5 on.
\<close>

definition thermo_world :: world where
  "thermo_world =
     example_world
       \<lparr>giga_stream := (\<lambda>giga request.
          ([content_chunk (if temperature request < 0.5 then str ''cold'' else str ''warm'')],
           None))\<rparr>"

text \<open>The same deployment after the font files have been removed from the disk.\<close>

definition no_fonts_world :: world where
  "no_fonts_world = example_world\<lparr>path_exists := (\<lambda>p. False)\<rparr>"

text \<open>The same deployment with the regular font only.\<close>

definition regular_only_world :: world where
  "regular_only_world = example_world\<lparr>path_exists := (\<lambda>p. p \<noteq> FONT_BOLD example_world)\<rparr>"

text \<open>
  A deployment whose API answers with a plan of two objects inside prose, with a JSON
  parser that knows this one array, and an item schema that requires the field \<open>topic\<close>
  to be a string.
\<close>

definition plan_objects :: "json list" where
  "plan_objects =
     [JObject [(str ''topic'', JString (str ''A''))],
      JObject [(str ''topic'', JString (str ''B''))]]"

definition plan_world :: world where
  "plan_world =
     example_world
       \<lparr>giga_stream := (\<lambda>giga request.
                          ([content_chunk (str ''Plan: [{topic: A}, ''),
                            content_chunk (str ''{topic: B}] done'')], None)),
        json_loads := (\<lambda>s. if s = str ''[{topic: A}, {topic: B}]''
                            then Some (JArray plan_objects) else None)\<rparr>"

definition topic_schema :: "json \<Rightarrow> pystr option" where
  "topic_schema obj =
     (case obj of
        JObject kv \<Rightarrow> (case map_of kv (str ''topic'') of Some (JString s) \<Rightarrow> Some s | _ \<Rightarrow> None)
      | _ \<Rightarrow> None)"

section \<open>Properties of the response extractor\<close>

lemma greedy_close_none:
  "RBRACKET \<notin> set s \<Longrightarrow> match_here [StarGreedy DotAll, Lit RBRACKET] s = None"
  by (induction s) auto

lemma greedy_close_last:
  "RBRACKET \<notin> set b \<Longrightarrow>
   match_here [StarGreedy DotAll, Lit RBRACKET] (a @ RBRACKET # b) = Some [a, [RBRACKET]]"
  by (induction a) (auto simp: greedy_close_none)

lemma re_search_skip:
  "c \<notin> set a \<Longrightarrow>
   re_search (Lit c # r) (a @ s) =
     map_option (\<lambda>(pre, ps). (a @ pre, ps)) (re_search (Lit c # r) s)"
  by (induction a) (auto simp: option.map_comp comp_def split_def option.map_ident)

lemma re_search_no_close:
  "RBRACKET \<notin> set s \<Longrightarrow> re_search json_array_re s = None"
  by (induction s) (auto simp: json_array_re_def greedy_close_none)

lemma re_search_span:
  "RBRACKET \<notin> set b \<Longrightarrow>
   re_search json_array_re (LBRACKET # m @ RBRACKET # b) =
     Some ([], [[LBRACKET], m, [RBRACKET]])"
  by (simp add: json_array_re_def greedy_close_last)

lemma extract_span:
  assumes "LBRACKET \<notin> set a" "RBRACKET \<notin> set b"
  shows "extract_json_from_text (a @ LBRACKET # m @ RBRACKET # b) = LBRACKET # m @ [RBRACKET]"
proof -
  have "re_search json_array_re (a @ LBRACKET # m @ RBRACKET # b)
        = Some (a @ [], [[LBRACKET], m, [RBRACKET]])"
    using re_search_skip[OF assms(1), of "[StarGreedy DotAll, Lit RBRACKET]"
        "LBRACKET # m @ RBRACKET # b"]
      re_search_span[OF assms(2), of m]
    by (simp add: json_array_re_def)
  then show ?thesis by (simp add: extract_json_from_text_def)
qed

lemma bracket_pair_first_last:
  assumes "s = a @ LBRACKET # m @ RBRACKET # b"
  shows "\<exists>a' m' b'. s = a' @ LBRACKET # m' @ RBRACKET # b' \<and>
           LBRACKET \<notin> set a' \<and> RBRACKET \<notin> set b'"
proof -
  have "LBRACKET \<in> set s" using assms by simp
  then obtain a' r where t: "s = a' @ LBRACKET # r" and a': "LBRACKET \<notin> set a'"
    by (meson split_list_first)
  have "RBRACKET \<in> set r"
  proof -
    have "a @ LBRACKET # m @ RBRACKET # b = a' @ LBRACKET # r"
      using assms t by simp
    then consider us where "a = a' @ us" "us @ LBRACKET # m @ RBRACKET # b = LBRACKET # r"
      | us where "a @ us = a'" "LBRACKET # m @ RBRACKET # b = us @ LBRACKET # r"
      by (auto simp: append_eq_append_conv2)
    then show ?thesis
    proof cases
      case 1
      have "RBRACKET \<in> set (us @ LBRACKET # m @ RBRACKET # b)" by simp
      then have "RBRACKET \<in> set (LBRACKET # r)" using 1(2) by simp
      then show ?thesis by simp
    next
      case 2
      show ?thesis
      proof (cases us)
        case Nil
        with 2(2) have "r = m @ RBRACKET # b" by simp
        then show ?thesis by simp
      next
        case (Cons u us')
        with 2 a' show ?thesis by auto
      qed
    qed
  qed
  then obtain m' b' where "r = m' @ RBRACKET # b'" "RBRACKET \<notin> set b'"
    by (meson split_list_last)
  with t a' show ?thesis by blast
qed

lemma extract_no_pair:
  assumes "\<nexists>a m b. s = a @ LBRACKET # m @ RBRACKET # b"
  shows "extract_json_from_text s = s"
proof (cases "LBRACKET \<in> set s")
  case False
  then have "re_search json_array_re s = None"
    using re_search_skip[of LBRACKET s "[StarGreedy DotAll, Lit RBRACKET]" "[]"]
    by (simp add: json_array_re_def)
  then show ?thesis by (simp add: extract_json_from_text_def)
next
  case True
  then obtain a r where t: "s = a @ LBRACKET # r" and a: "LBRACKET \<notin> set a"
    by (meson split_list_first)
  have "RBRACKET \<notin> set r"
  proof
    assume "RBRACKET \<in> set r"
    then obtain m b where "r = m @ RBRACKET # b" by (meson split_list)
    with t assms show False by blast
  qed
  then have "re_search json_array_re (LBRACKET # r) = None"
    by (intro re_search_no_close) simp
  then have "re_search json_array_re s = None"
    using re_search_skip[OF a, of "[StarGreedy DotAll, Lit RBRACKET]" "LBRACKET # r"] t
    by (simp add: json_array_re_def)
  then show ?thesis by (simp add: extract_json_from_text_def)
qed

text \<open>
  Claim C2. Whenever the text splits as \<open>a @ [ # m @ ] # b\<close> with no \<open>[\<close> in \<open>a\<close>
  (so this \<open>[\<close> is the first) and no \<open>]\<close> in \<open>b\<close> (so this \<open>]\<close> is the last),
  the extractor returns exactly the span \<open>[ # m @ ]\<close>, whatever \<open>m\<close> holds (newlines,
  further brackets); every text that contains a \<open>[\<close> followed later by a \<open>]\<close> splits
  in this way; and a text with no such pair is returned unchanged. The extractor is a
  total function to strings: it has no error result.
\<close>

theorem extract_json_from_text_span_or_unchanged:
  "(LBRACKET \<notin> set a \<and> RBRACKET \<notin> set b \<longrightarrow>
      extract_json_from_text (a @ LBRACKET # m @ RBRACKET # b) = LBRACKET # m @ [RBRACKET]) \<and>
   ((\<exists>a m b. s = a @ LBRACKET # m @ RBRACKET # b) \<longrightarrow>
      (\<exists>a m b. s = a @ LBRACKET # m @ RBRACKET # b \<and> LBRACKET \<notin> set a \<and> RBRACKET \<notin> set b)) \<and>
   ((\<nexists>a m b. s = a @ LBRACKET # m @ RBRACKET # b) \<longrightarrow> extract_json_from_text s = s)"
  using extract_span[of a b m] bracket_pair_first_last[of s] extract_no_pair[of s]
  by blast

theorem extract_json_from_text_witness:
  "extract_json_from_text (str ''Plan: [1,'' @ NEWLINE # str ''[2]] ok] [ end'') =
     str ''[1,'' @ NEWLINE # str ''[2]] ok]'' \<and>
   extract_json_from_text (str ''] no pair ['') = str ''] no pair [''"
proof -
  have no_pair: "\<nexists>a m b. str ''] no pair ['' = a @ LBRACKET # m @ RBRACKET # b"
  proof
    assume "\<exists>a m b. str ''] no pair ['' = a @ LBRACKET # m @ RBRACKET # b"
    then obtain a m b where e: "str ''] no pair ['' = a @ LBRACKET # m @ RBRACKET # b"
      by blast
    have "LBRACKET \<notin> set (butlast (str ''] no pair [''))" by (simp add: str_def)
    moreover have "butlast (str ''] no pair ['') = a @ LBRACKET # butlast (m @ RBRACKET # b)"
      unfolding e by (simp add: butlast_append)
    ultimately show False by simp
  qed
  have fl: "LBRACKET \<notin> set (str ''Plan: '') \<and> RBRACKET \<notin> set (str '' [ end'')"
    by (simp add: str_def)
  have "str ''Plan: [1,'' @ NEWLINE # str ''[2]] ok] [ end''
        = str ''Plan: '' @ LBRACKET # (str ''1,'' @ NEWLINE # str ''[2]] ok'') @ RBRACKET # str '' [ end''"
    by (simp add: str_def)
  moreover have "str ''[1,'' @ NEWLINE # str ''[2]] ok]''
        = LBRACKET # (str ''1,'' @ NEWLINE # str ''[2]] ok'') @ [RBRACKET]"
    by (simp add: str_def)
  ultimately show ?thesis
    using extract_json_from_text_span_or_unchanged
      [of "str ''Plan: ''" "str '' [ end''" "str ''1,'' @ NEWLINE # str ''[2]] ok''"
          "str ''] no pair [''"]
      no_pair fl
    by simp
qed

section \<open>Properties of the Markdown conversion\<close>

lemma md_example:
  "md_to_html_tags (str ''**bold** and *italic*'') = str ''<b>bold</b> and <i>italic</i>''"
  by (simp add: md_to_html_tags_def bold_re_def italic_re_def bold_repl_def italic_repl_def
      str_def)


lemma first_star_or_newline:
  obtains (star) g r where "s = g @ STAR # r" "STAR \<notin> set g" "NEWLINE \<notin> set g"
  | (newline) g r where "s = g @ NEWLINE # r" "STAR \<notin> set g" "NEWLINE \<notin> set g"
  | (neither) "STAR \<notin> set s" "NEWLINE \<notin> set s"
proof -
  let ?P = "\<lambda>c. c \<noteq> STAR \<and> c \<noteq> NEWLINE"
  let ?g = "takeWhile ?P s" and ?r = "dropWhile ?P s"
  have s: "s = ?g @ ?r" by simp
  have g: "STAR \<notin> set ?g" "NEWLINE \<notin> set ?g"
    by (auto dest: set_takeWhileD)
  show ?thesis
  proof (cases ?r)
    case Nil
    then have "s = ?g" using s by (metis append_Nil2)
    with g have "STAR \<notin> set s" "NEWLINE \<notin> set s" by metis+
    then show ?thesis by (rule neither)
  next
    case (Cons c r')
    then have "\<not> ?P c" using hd_dropWhile[of ?P s] by auto
    then consider "c = STAR" | "c = NEWLINE" by auto
    then show ?thesis
    proof cases
      case 1
      with Cons s have "s = ?g @ STAR # r'" by metis
      then show ?thesis using g by (rule star)
    next
      case 2
      with Cons s have "s = ?g @ NEWLINE # r'" by metis
      then show ?thesis using g by (rule newline)
    qed
  qed
qed

lemma lazy_close_some:
  "STAR \<notin> set g \<Longrightarrow> NEWLINE \<notin> set g \<Longrightarrow> lazy_close (g @ STAR # r) = Some [g, [STAR]]"
  by (induction g) auto

lemma lazy_close_newline:
  "STAR \<notin> set g \<Longrightarrow> lazy_close (g @ NEWLINE # r) = None"
  by (induction g) auto

lemma lazy_close_nostar:
  "STAR \<notin> set s \<Longrightarrow> lazy_close s = None"
  by (induction s) auto

lemma italic_sub_other: "c \<noteq> STAR \<Longrightarrow> italic_sub (c # s) = c # italic_sub s"
  by (simp add: italic_re_def)

lemma italic_sub_Nil: "italic_sub [] = []"
  by (simp add: italic_re_def)

lemma italic_sub_pair:
  "STAR \<notin> set g \<Longrightarrow> NEWLINE \<notin> set g \<Longrightarrow>
   italic_sub (STAR # g @ STAR # r) = str ''<i>'' @ g @ str ''</i>'' @ italic_sub r"
  using lazy_close_some[of g r]
  by (simp add: italic_re_def italic_repl_def)

lemma italic_sub_dead:
  "lazy_close s = None \<Longrightarrow> italic_sub (STAR # s) = STAR # italic_sub s"
  by (simp add: italic_re_def)


lemma italic_sub_skip:
  "STAR \<notin> set a \<Longrightarrow> italic_sub (a @ s) = a @ italic_sub s"
  by (induction a) (auto simp: italic_re_def)

lemma italic_sub_inert:
  assumes m: "STAR \<notin> set m" "NEWLINE \<notin> set m"
  shows "\<exists>u v. italic_sub (x @ m @ y) = u @ m @ v \<and> italic_sub (x @ y) = u @ v"
proof (induction x rule: length_induct)
  case (1 x)
  note IH = 1[rule_format]
  show ?case
  proof (cases x)
    case Nil
    have "italic_sub ([] @ m @ y) = [] @ m @ italic_sub y \<and>
          italic_sub ([] @ y) = [] @ italic_sub y"
      using italic_sub_skip[OF m(1), of y] by (simp only: append_Nil simp_thms)
    then show ?thesis
      unfolding Nil by (intro exI[of _ "[]"] exI[of _ "italic_sub y"])
  next
    case (Cons c x')
    have lx': "length x' < length x" unfolding Cons by simp
    show ?thesis
    proof (cases "c = STAR")
      case False
      from IH[OF lx'] obtain u v where
        uv: "italic_sub (x' @ m @ y) = u @ m @ v" "italic_sub (x' @ y) = u @ v"
        by (elim exE conjE)
      have "italic_sub (x @ m @ y) = (c # u) @ m @ v"
        unfolding Cons append_Cons italic_sub_other[OF False] uv ..
      moreover have "italic_sub (x @ y) = (c # u) @ v"
        unfolding Cons append_Cons italic_sub_other[OF False] uv ..
      ultimately show ?thesis by (intro exI conjI)
    next
      case True
      have dead: "italic_sub (x @ s) = STAR # italic_sub (x' @ s)" if "lazy_close (x' @ s) = None" for s
        unfolding Cons True append_Cons using that by (rule italic_sub_dead)
      show ?thesis
      proof (cases x' rule: first_star_or_newline)
        case (star g r)
        have "length r < length x" unfolding Cons star(1) by simp
        from IH[OF this] obtain u v where
          uv: "italic_sub (r @ m @ y) = u @ m @ v" "italic_sub (r @ y) = u @ v"
          by (elim exE conjE)
        have p: "italic_sub (x @ s) = str ''<i>'' @ g @ str ''</i>'' @ italic_sub (r @ s)" for s
          using italic_sub_pair[OF star(2,3), of "r @ s"]
          unfolding Cons True star(1) by (simp only: append_Cons append_assoc)
        have "italic_sub (x @ m @ y) = (str ''<i>'' @ g @ str ''</i>'' @ u) @ m @ v"
          unfolding p[of "m @ y"] uv by (simp only: append_assoc)
        moreover have "italic_sub (x @ y) = (str ''<i>'' @ g @ str ''</i>'' @ u) @ v"
          unfolding p[of y] uv by (simp only: append_assoc)
        ultimately show ?thesis by (intro exI conjI)
      next
        case (newline g r)
        from IH[OF lx'] obtain u v where
          uv: "italic_sub (x' @ m @ y) = u @ m @ v" "italic_sub (x' @ y) = u @ v"
          by (elim exE conjE)
        have n: "lazy_close (x' @ s) = None" for s
          using lazy_close_newline[OF newline(2), of "r @ s"]
          unfolding newline(1) by (simp only: append_Cons append_assoc)
        have "italic_sub (x @ m @ y) = (STAR # u) @ m @ v"
          unfolding dead[OF n] uv by (simp only: append_Cons)
        moreover have "italic_sub (x @ y) = (STAR # u) @ v"
          unfolding dead[OF n] uv by (simp only: append_Cons)
        ultimately show ?thesis by (intro exI conjI)
      next
        case neither
        have xm: "STAR \<notin> set (x' @ m)" "NEWLINE \<notin> set (x' @ m)"
          using neither m by simp_all
        show ?thesis
        proof (cases y rule: first_star_or_newline)
          case (star g r)
          have g1: "STAR \<notin> set (x' @ m @ g)" "NEWLINE \<notin> set (x' @ m @ g)"
            using neither m star by simp_all
          have g2: "STAR \<notin> set (x' @ g)" "NEWLINE \<notin> set (x' @ g)"
            using neither star by simp_all
          have "italic_sub (x @ m @ y) = (str ''<i>'' @ x') @ m @ (g @ str ''</i>'' @ italic_sub r)"
            using italic_sub_pair[OF g1, of r]
            unfolding Cons True star(1) by (simp only: append_Cons append_assoc)
          moreover have "italic_sub (x @ y) = (str ''<i>'' @ x') @ (g @ str ''</i>'' @ italic_sub r)"
            using italic_sub_pair[OF g2, of r]
            unfolding Cons True star(1) by (simp only: append_Cons append_assoc)
          ultimately show ?thesis by (intro exI conjI)
        next
          case (newline g r)
          have g1: "STAR \<notin> set (x' @ m @ g)" "STAR \<notin> set (x' @ g)"
            using neither m newline by simp_all
          have n1: "lazy_close (x' @ m @ y) = None"
            using lazy_close_newline[OF g1(1), of r]
            unfolding newline(1) by (simp only: append_assoc)
          have n2: "lazy_close (x' @ y) = None"
            using lazy_close_newline[OF g1(2), of r]
            unfolding newline(1) by (simp only: append_assoc)
          have "italic_sub (x @ m @ y) = (STAR # x') @ m @ italic_sub y"
            unfolding dead[OF n1] using italic_sub_skip[OF xm(1), of y]
            by (simp only: append_Cons append_assoc)
          moreover have "italic_sub (x @ y) = (STAR # x') @ italic_sub y"
            unfolding dead[OF n2] using italic_sub_skip[OF neither(1), of y]
            by (simp only: append_Cons)
          ultimately show ?thesis by (intro exI conjI)
        next
          case neither': neither
          have n1: "lazy_close (x' @ m @ y) = None"
            using neither neither' m by (intro lazy_close_nostar) simp
          have n2: "lazy_close (x' @ y) = None"
            using neither neither' by (intro lazy_close_nostar) simp
          have "italic_sub (x @ m @ y) = (STAR # x') @ m @ italic_sub y"
            unfolding dead[OF n1] using italic_sub_skip[OF xm(1), of y]
            by (simp only: append_Cons append_assoc)
          moreover have "italic_sub (x @ y) = (STAR # x') @ italic_sub y"
            unfolding dead[OF n2] using italic_sub_skip[OF neither(1), of y]
            by (simp only: append_Cons)
          ultimately show ?thesis by (intro exI conjI)
        qed
      qed
    qed
  qed
qed


lemma last_line_append:
  "last_line (x @ y) = (if NEWLINE \<in> set y then last_line y else last_line x @ y)"
proof (cases "NEWLINE \<in> set y")
  case True
  then have "takeWhile (\<lambda>c. c \<noteq> NEWLINE) (rev y @ rev x) = takeWhile (\<lambda>c. c \<noteq> NEWLINE) (rev y)"
    by (intro takeWhile_append1[of NEWLINE]) simp_all
  then show ?thesis using True by (simp add: last_line_def)
next
  case False
  then have "takeWhile (\<lambda>c. c \<noteq> NEWLINE) (rev y @ rev x) = rev y @ takeWhile (\<lambda>c. c \<noteq> NEWLINE) (rev x)"
    by (intro takeWhile_append2) auto
  then show ?thesis using False by (simp add: last_line_def)
qed

lemma last_line_no_newline: "NEWLINE \<notin> set s \<Longrightarrow> last_line s = s"
proof -
  assume "NEWLINE \<notin> set s"
  then have "takeWhile (\<lambda>c. c \<noteq> NEWLINE) (rev s) = rev s"
    by (intro takeWhile_eq_all_conv[THEN iffD2]) auto
  then show ?thesis unfolding last_line_def by (simp only: rev_rev_ident)
qed

lemma last_line_Cons:
  "last_line (c # s) = (if NEWLINE \<in> set s then last_line s else if c = NEWLINE then s else c # s)"
  using last_line_append[of "[c]" s] by (simp add: last_line_def)

lemma count_star_free: "STAR \<notin> set g \<Longrightarrow> count_list g STAR = 0"
  by (induction g) auto

lemma italic_sub_closed:
  "even (count_list (last_line a) STAR) \<Longrightarrow> italic_sub (a @ s) = italic_sub a @ italic_sub s"
proof (induction a rule: length_induct)
  case (1 a)
  note IH = 1(1)[rule_format]
  show ?case
  proof (cases a)
    case Nil
    show ?thesis unfolding Nil italic_sub_Nil by (simp only: append_Nil)
  next
    case (Cons c a')
    have la': "length a' < length a" unfolding Cons by simp
    show ?thesis
    proof (cases "c = STAR")
      case False
      have "count_list (last_line a) STAR = count_list (last_line a') STAR"
        unfolding Cons using False by (simp add: last_line_Cons last_line_no_newline)
      with 1(2) have "even (count_list (last_line a') STAR)" by simp
      from IH[OF la' this] show ?thesis
        unfolding Cons append_Cons italic_sub_other[OF False] by (simp only: append_Cons)
    next
      case True
      show ?thesis
      proof (cases a' rule: first_star_or_newline)
        case (star g r)
        have lr: "length r < length a" unfolding Cons star(1) by simp
        have "count_list (last_line a) STAR =
              (if NEWLINE \<in> set r then count_list (last_line r) STAR
               else 2 + count_list (last_line r) STAR)"
          unfolding Cons True star(1)
          using star(2,3) last_line_append[of "STAR # g @ [STAR]" r]
          by (simp add: last_line_no_newline count_star_free)
        with 1(2) have "even (count_list (last_line r) STAR)" by (simp split: if_splits)
        note ih = IH[OF lr this]
        have p: "italic_sub (a @ t) = str ''<i>'' @ g @ str ''</i>'' @ italic_sub (r @ t)" for t
          using italic_sub_pair[OF star(2,3), of "r @ t"]
          unfolding Cons True star(1) by (simp only: append_Cons append_assoc)
        show ?thesis
          using p[of s] p[of "[]"] ih by (simp only: append_Nil2 append_assoc)
      next
        case (newline g r)
        have "last_line a = last_line a'"
          unfolding Cons newline(1) by (simp add: last_line_Cons)
        with 1(2) have "even (count_list (last_line a') STAR)" by simp
        note ih = IH[OF la' this]
        have n: "lazy_close (a' @ t) = None" for t
          using lazy_close_newline[OF newline(2), of "r @ t"]
          unfolding newline(1) by (simp only: append_Cons append_assoc)
        have d: "italic_sub (a @ t) = STAR # italic_sub (a' @ t)" for t
          unfolding Cons True append_Cons using n by (rule italic_sub_dead)
        show ?thesis
          using d[of s] d[of "[]"] ih by (simp only: append_Nil2 append_Cons)
      next
        case neither
        have "count_list (last_line a) STAR = 1"
          unfolding Cons True using neither by (simp add: last_line_no_newline count_star_free)
        with 1(2) show ?thesis by simp
      qed
    qed
  qed
qed


lemma has_marker_Cons:
  "has_marker (c # s) = (s \<noteq> [] \<and> ((c = STAR \<and> hd s = STAR) \<or> has_marker s))"
  by (cases s) auto

lemma bold_sub_skip:
  "\<not> has_marker (a @ [STAR]) \<Longrightarrow> bold_sub (a @ s) = a @ bold_sub s"
proof (induction a)
  case Nil
  then show ?case by simp
next
  case (Cons c a')
  then have ih: "bold_sub (a' @ s) = a' @ bold_sub s"
    by (simp add: has_marker_Cons)
  have "match_here bold_re (c # a' @ s) = None"
    using Cons.prems by (cases a') (auto simp: bold_re_def)
  then show ?case using ih by simp
qed

lemma lazy_marker_close:
  "\<not> has_marker (t @ [STAR]) \<Longrightarrow> NEWLINE \<notin> set t \<Longrightarrow>
   match_here [StarLazy Dot, Lit STAR, Lit STAR] (t @ STAR # STAR # b) = Some [t, [STAR], [STAR]]"
proof (induction t)
  case Nil
  then show ?case by simp
next
  case (Cons c t')
  then have ih: "match_here [StarLazy Dot, Lit STAR, Lit STAR] (t' @ STAR # STAR # b) =
                 Some [t', [STAR], [STAR]]"
    by (simp add: has_marker_Cons)
  have "match_here [Lit STAR, Lit STAR] (c # t' @ STAR # STAR # b) = None"
    using Cons.prems by (cases t') auto
  then show ?case using ih Cons.prems by simp
qed

lemma bold_sub_marked_span:
  assumes "\<not> has_marker (t @ [STAR])" "NEWLINE \<notin> set t"
  shows "bold_sub (STAR # STAR # t @ STAR # STAR # b) =
         str ''<b>'' @ t @ str ''</b>'' @ bold_sub b"
  using lazy_marker_close[OF assms, of b]
  by (simp add: bold_re_def bold_repl_def)

text \<open>
  The two substitutions on an input \<open>a @ **t** @ b\<close> in which no marker begins before
  the span and the text \<open>t\<close> is on one line, holds no marker and does not end in an
  asterisk: the bold pass converts the span and goes on with \<open>b\<close>.
\<close>

lemma bold_sub_first_span:
  assumes "\<not> has_marker (a @ [STAR])" "\<not> has_marker (t @ [STAR])" "NEWLINE \<notin> set t"
  shows "bold_sub (a @ STAR # STAR # t @ STAR # STAR # b) =
           a @ str ''<b>'' @ t @ str ''</b>'' @ bold_sub b"
  unfolding bold_sub_skip[OF assms(1)] bold_sub_marked_span[OF assms(2,3)] ..

lemma md_no_marker:
  assumes "\<not> has_marker (t @ [STAR])"
  shows "md_to_html_tags t = italic_sub t"
proof -
  have "bold_sub t = t"
    using bold_sub_skip[OF assms, of "[]"] by (simp add: bold_re_def)
  then show ?thesis unfolding md_to_html_tags_def by (simp only:)
qed

lemma md_span_closed:
  assumes a: "\<not> has_marker (a @ [STAR])" "even (count_list (last_line a) STAR)"
    and t: "\<not> has_marker (t @ [STAR])" "NEWLINE \<notin> set t" "even (count_list t STAR)"
  shows "md_to_html_tags (a @ STAR # STAR # t @ STAR # STAR # b) =
           md_to_html_tags a @ str ''<b>'' @ md_to_html_tags t @ str ''</b>'' @ md_to_html_tags b"
proof -
  let ?B = "bold_sub b"
  have ct: "even (count_list (last_line t) STAR)"
    using t(2,3) by (simp add: last_line_no_newline)
  have sb: "STAR \<notin> set (str ''<b>'')" "STAR \<notin> set (str ''</b>'')"
    by (simp_all add: str_def)
  have "italic_sub (a @ str ''<b>'' @ t @ str ''</b>'' @ ?B) =
        italic_sub a @ italic_sub (str ''<b>'' @ t @ str ''</b>'' @ ?B)"
    by (rule italic_sub_closed[OF a(2)])
  also have "italic_sub (str ''<b>'' @ t @ str ''</b>'' @ ?B) =
             str ''<b>'' @ italic_sub (t @ str ''</b>'' @ ?B)"
    by (rule italic_sub_skip[OF sb(1)])
  also have "italic_sub (t @ str ''</b>'' @ ?B) = italic_sub t @ italic_sub (str ''</b>'' @ ?B)"
    by (rule italic_sub_closed[OF ct])
  also have "italic_sub (str ''</b>'' @ ?B) = str ''</b>'' @ italic_sub ?B"
    by (rule italic_sub_skip[OF sb(2)])
  finally have "italic_sub (a @ str ''<b>'' @ t @ str ''</b>'' @ ?B) =
        italic_sub a @ str ''<b>'' @ italic_sub t @ str ''</b>'' @ italic_sub ?B" .
  then show ?thesis
    unfolding md_no_marker[OF a(1)] md_no_marker[OF t(1)]
    unfolding md_to_html_tags_def bold_sub_first_span[OF a(1) t(1,2)] .
qed

lemma md_span_inert:
  assumes a: "\<not> has_marker (a @ [STAR])"
    and t: "STAR \<notin> set t" "NEWLINE \<notin> set t"
  shows "\<exists>u v. md_to_html_tags (a @ STAR # STAR # t @ STAR # STAR # b) =
                 u @ str ''<b>'' @ t @ str ''</b>'' @ v \<and>
               md_to_html_tags (a @ b) = u @ v"
proof -
  let ?B = "bold_sub b"
  have nm: "\<not> has_marker (t @ [STAR])"
    using t(1) by (induction t) (auto simp: has_marker_Cons)
  have b1: "bold_sub (a @ STAR # STAR # t @ STAR # STAR # b) =
            a @ (str ''<b>'' @ t @ str ''</b>'') @ ?B"
    unfolding bold_sub_first_span[OF a nm t(2)] by (simp only: append_assoc)
  have b2: "bold_sub (a @ b) = a @ ?B"
    by (rule bold_sub_skip[OF a])
  have "STAR \<notin> set (str ''<b>'' @ t @ str ''</b>'')" "NEWLINE \<notin> set (str ''<b>'' @ t @ str ''</b>'')"
    using t by (simp_all add: str_def)
  from italic_sub_inert[OF this, of a ?B] obtain u v where
    "italic_sub (a @ (str ''<b>'' @ t @ str ''</b>'') @ ?B) = u @ (str ''<b>'' @ t @ str ''</b>'') @ v"
    "italic_sub (a @ ?B) = u @ v"
    by (elim exE conjE)
  then have "md_to_html_tags (a @ STAR # STAR # t @ STAR # STAR # b) =
                 u @ str ''<b>'' @ t @ str ''</b>'' @ v \<and>
               md_to_html_tags (a @ b) = u @ v"
    unfolding md_to_html_tags_def b1 b2 by (simp only: append_assoc simp_thms)
  then show ?thesis by (intro exI)
qed

text \<open>
  Claim C7, as the code has it. The converter maps \<open>**bold** and *italic*\<close> to
  \<open><b>bold</b> and <i>italic</i>\<close>. The bold substitution runs before the italic one.
  Take an input \<open>a @ **t** @ b\<close> in which no \<open>**\<close> begins before the span (\<open>a\<close> holds no
  two adjacent asterisks and does not end in one) and the text \<open>t\<close> is on one line.

  If \<open>t\<close> holds no \<open>**\<close>, does not end in an asterisk and its asterisks come in pairs,
  and no italic is open where the span begins (the asterisks on the last line of \<open>a\<close>
  come in pairs), then the span is converted whole and the three parts are converted
  on their own: the result is the conversion of \<open>a\<close>, then \<open><b>\<close>, the conversion of
  \<open>t\<close>, \<open></b>\<close>, then the conversion of \<open>b\<close>. This covers italic spans nested in the
  bold one.

  If \<open>t\<close> holds no asterisk, then whatever \<open>a\<close> and \<open>b\<close> hold, the result is the
  conversion of the input without the span, \<open>a @ b\<close>, with \<open><b>t</b>\<close> inserted whole
  into it: an italic span may enclose the bold one but never cuts it.

  In both cases what follows the span is converted by the same function, so the
  statement applies again to the next span.
\<close>

theorem md_to_html_tags_bold_before_italic:
  "md_to_html_tags (str ''**bold** and *italic*'') = str ''<b>bold</b> and <i>italic</i>'' \<and>
   (\<not> has_marker (a @ [STAR]) \<and> even (count_list (last_line a) STAR) \<and>
    \<not> has_marker (t @ [STAR]) \<and> NEWLINE \<notin> set t \<and> even (count_list t STAR) \<longrightarrow>
      md_to_html_tags (a @ STAR # STAR # t @ STAR # STAR # b) =
        md_to_html_tags a @ str ''<b>'' @ md_to_html_tags t @ str ''</b>'' @ md_to_html_tags b) \<and>
   (\<not> has_marker (a @ [STAR]) \<and> STAR \<notin> set t \<and> NEWLINE \<notin> set t \<longrightarrow>
      (\<exists>u v. md_to_html_tags (a @ STAR # STAR # t @ STAR # STAR # b) =
                 u @ str ''<b>'' @ t @ str ''</b>'' @ v \<and>
             md_to_html_tags (a @ b) = u @ v))"
  using md_example md_span_closed[of a t b] md_span_inert[of a t b] by blast

theorem md_to_html_tags_bold_before_italic_witness:
  "md_to_html_tags (str ''*x* **a *i* b** c'') = str ''<i>x</i> <b>a <i>i</i> b</b> c'' \<and>
   (\<exists>u v. md_to_html_tags (str ''*x **t** y*'') = u @ str ''<b>t</b>'' @ v \<and>
          md_to_html_tags (str ''*x  y*'') = u @ v)"
proof -
  note ev = md_to_html_tags_def bold_re_def italic_re_def bold_repl_def italic_repl_def str_def
  have h1: "\<not> has_marker (str ''*x* '' @ [STAR]) \<and> even (count_list (last_line (str ''*x* '')) STAR) \<and>
        \<not> has_marker (str ''a *i* b'' @ [STAR]) \<and> NEWLINE \<notin> set (str ''a *i* b'') \<and>
        even (count_list (str ''a *i* b'') STAR)"
    by (simp add: str_def last_line_def)
  have h2: "\<not> has_marker (str ''*x '' @ [STAR]) \<and> STAR \<notin> set (str ''t'') \<and> NEWLINE \<notin> set (str ''t'')"
    by (simp add: str_def)
  have parts: "md_to_html_tags (str ''*x* '') = str ''<i>x</i> ''"
    "md_to_html_tags (str ''a *i* b'') = str ''a <i>i</i> b''"
    "md_to_html_tags (str '' c'') = str '' c''"
    by (simp_all add: ev)
  have i1: "str ''*x* **a *i* b** c'' =
            str ''*x* '' @ STAR # STAR # str ''a *i* b'' @ STAR # STAR # str '' c''"
    and i2: "str ''*x **t** y*'' = str ''*x '' @ STAR # STAR # str ''t'' @ STAR # STAR # str '' y*''"
    and i3: "str ''*x  y*'' = str ''*x '' @ str '' y*''"
    and i4: "str ''<b>t</b>'' = str ''<b>'' @ str ''t'' @ str ''</b>''"
    by (simp_all add: str_def)
  have "md_to_html_tags (str ''*x* '' @ STAR # STAR # str ''a *i* b'' @ STAR # STAR # str '' c'') =
        md_to_html_tags (str ''*x* '') @ str ''<b>'' @ md_to_html_tags (str ''a *i* b'') @ str ''</b>''
          @ md_to_html_tags (str '' c'')"
    by (rule md_to_html_tags_bold_before_italic
        [of "str ''*x* ''" "str ''a *i* b''" "str '' c''",
         THEN conjunct2, THEN conjunct1, THEN mp, OF h1])
  then have 1: "md_to_html_tags (str ''*x* **a *i* b** c'') = str ''<i>x</i> <b>a <i>i</i> b</b> c''"
    unfolding i1 parts by (simp add: str_def)
  have "\<exists>u v. md_to_html_tags (str ''*x '' @ STAR # STAR # str ''t'' @ STAR # STAR # str '' y*'') =
                 u @ str ''<b>'' @ str ''t'' @ str ''</b>'' @ v \<and>
               md_to_html_tags (str ''*x '' @ str '' y*'') = u @ v"
    by (rule md_to_html_tags_bold_before_italic
        [of "str ''*x ''" "str ''t''" "str '' y*''",
         THEN conjunct2, THEN conjunct2, THEN mp, OF h2])
  then have 2: "\<exists>u v. md_to_html_tags (str ''*x **t** y*'') = u @ str ''<b>t</b>'' @ v \<and>
          md_to_html_tags (str ''*x  y*'') = u @ v"
    unfolding i2 i3 i4 by (simp only: append_assoc)
  from 1 2 show ?thesis by (rule conjI)
qed

text \<open>
  Claim C7 as stated, for every input, fails, and each condition above is needed.
  A span whose text holds a line break is not matched by the bold rule, and the italic
  rule then matches each pair of asterisks as an empty italic span. A marker that begins
  before the span takes the span's opening marker. A text that ends in an asterisk
  loses it to the closing marker. An odd asterisk in the text, or an italic left open
  before the span, is paired by the italic rule across the span's boundary, which
  gives crossed tags; three asterisks on each side do the same.
\<close>

theorem md_to_html_tags_span_counterexample:
  "md_to_html_tags (str ''**a'' @ NEWLINE # str ''b**'') =
     str ''<i></i>a'' @ NEWLINE # str ''b<i></i>'' \<and>
   md_to_html_tags (str ''** **a**'') = str ''<b> </b>a<i></i>'' \<and>
   md_to_html_tags (str ''**a***'') = str ''<b>a</b>*'' \<and>
   md_to_html_tags (str ''**a*b** c*'') = str ''<b>a<i>b</b> c</i>'' \<and>
   md_to_html_tags (str ''*x **u *i* v**'') = str ''<i>x <b>u </i>i* v</b>'' \<and>
   md_to_html_tags (str ''***a***'') = str ''<b><i>a</b></i>''"
  by (simp add: md_to_html_tags_def bold_re_def italic_re_def bold_repl_def italic_repl_def
      str_def)

section \<open>Properties of the model client\<close>

lemma str_join_nosep: "sep = [] \<Longrightarrow> str_join sep xs = concat xs"
  by (induction sep xs rule: str_join.induct) auto

lemma example_client:
  "get_gigachat_client example_world =
     Inr \<lparr>credentials = Some (str ''key''), scope = Some (str ''GIGACHAT_API_PERS''),
          client_model = Some (str ''GigaChat-Pro''), ca_bundle_file = None,
          verify_ssl_certs = False\<rparr>"
  by (simp add: get_gigachat_client_def example_world_def example_secrets_def
      gigachat_secrets_def py_or_def getenv_default_def str_def)

lemma example_stream:
  "generate_stream example_world p None =
     \<lparr>yielded = [str ''Hel'', str ''lo''], raised = None,
      requests =
        [(\<lparr>credentials = Some (str ''key''), scope = Some (str ''GIGACHAT_API_PERS''),
           client_model = Some (str ''GigaChat-Pro''), ca_bundle_file = None,
           verify_ssl_certs = False\<rparr>,
          \<lparr>messages = [(USER, p)], temperature = 0.7, max_tokens = 4000,
           model = str ''GigaChat-2-Max''\<rparr>)]\<rparr>"
  by (simp add: generate_stream_def example_client)
     (simp add: example_world_def content_chunk_def DEFAULT_temperature_def
        DEFAULT_max_tokens_def str_def)


text \<open>
  Claim C1. For every configuration, prompt and temperature, over the deterministic
  transport: when the stream of \<open>generate_stream\<close> ends normally, \<open>generate_sync\<close> returns
  exactly the concatenation of the fragments the stream yields, in their order, and
  these are the truthy contents of the transport's chunks in arrival order; when the
  stream ends in an exception, \<open>generate_sync\<close> raises that same exception; so
  \<open>generate_sync\<close> returns a text only as the drained stream.
\<close>

theorem generate_sync_is_drained_stream:
  "(raised (generate_stream w p t) = None \<longrightarrow>
      generate_sync w p t = Inr (concat (yielded (generate_stream w p t)))) \<and>
   (\<forall>e. raised (generate_stream w p t) = Some e \<longrightarrow> generate_sync w p t = Inl e) \<and>
   (\<forall>s. generate_sync w p t = Inr s \<longrightarrow>
      raised (generate_stream w p t) = None \<and> s = concat (yielded (generate_stream w p t))) \<and>
   (\<forall>giga request. (giga, request) \<in> set (requests (generate_stream w p t)) \<longrightarrow>
      yielded (generate_stream w p t) = stream_loop (fst (giga_stream w giga request)))"
proof (intro conjI allI impI)
  assume "raised (generate_stream w p t) = None"
  then show "generate_sync w p t = Inr (concat (yielded (generate_stream w p t)))"
    by (simp add: generate_sync_def py_list_def str_join_nosep)
next
  fix e assume "raised (generate_stream w p t) = Some e"
  then show "generate_sync w p t = Inl e"
    by (simp add: generate_sync_def py_list_def)
next
  fix s assume s: "generate_sync w p t = Inr s"
  then show "raised (generate_stream w p t) = None"
    by (auto simp: generate_sync_def py_list_def split: option.splits)
  with s show "s = concat (yielded (generate_stream w p t))"
    by (simp add: generate_sync_def py_list_def str_join_nosep)
next
  fix giga request
  assume "(giga, request) \<in> set (requests (generate_stream w p t))"
  then show "yielded (generate_stream w p t) = stream_loop (fst (giga_stream w giga request))"
    by (auto simp: generate_stream_def Let_def split: sum.splits)
qed

theorem generate_sync_is_drained_stream_witness:
  "raised (generate_stream example_world (str ''hi'') None) = None \<and>
   yielded (generate_stream example_world (str ''hi'') None) = [str ''Hel'', str ''lo''] \<and>
   generate_sync example_world (str ''hi'') None = Inr (str ''Hello'')"
proof -
  have r: "raised (generate_stream example_world (str ''hi'') None) = None"
    and y: "yielded (generate_stream example_world (str ''hi'') None) = [str ''Hel'', str ''lo'']"
    by (simp_all add: example_stream)
  have "generate_sync example_world (str ''hi'') None =
        Inr (concat (yielded (generate_stream example_world (str ''hi'') None)))"
    using generate_sync_is_drained_stream[of example_world "str ''hi''" None] r by blast
  then show ?thesis using r y by (simp add: str_def)
qed

lemma thermo_client:
  "get_gigachat_client (thermo_world\<lparr>session_state := ss\<rparr>) =
     Inr \<lparr>credentials = Some (str ''key''), scope = Some (str ''GIGACHAT_API_PERS''),
          client_model = (case llm_model ss of Some m \<Rightarrow> Some m | None \<Rightarrow> Some (str ''GigaChat-Pro'')),
          ca_bundle_file = None, verify_ssl_certs = False\<rparr>"
  by (simp add: get_gigachat_client_def thermo_world_def example_world_def example_secrets_def
      gigachat_secrets_def py_or_def getenv_default_def str_def split: option.splits)

text \<open>
  Claim C10. A temperature of 0.0 passed explicitly is falsy: the call behaves exactly
  as the call with no temperature, for \<open>generate_stream\<close> and for \<open>generate_sync\<close>. The
  request that \<open>generate_stream\<close> sends then carries the session's \<open>llm_temperature\<close>, or
  0.7 when the session has none, and what \<open>generate_sync\<close> returns is the drained answer
  of the transport to the request with that fallback temperature. A non-zero
  temperature passed explicitly is the one the request carries, and \<open>generate_sync\<close>
  returns the drained answer to the request with that temperature.
\<close>

theorem explicit_zero_temperature_ignored:
  "generate_stream w p (Some 0) = generate_stream w p None \<and>
   generate_sync w p (Some 0) = generate_sync w p None \<and>
   (get_gigachat_client w = Inr giga \<longrightarrow>
      map (\<lambda>(g, request). temperature request) (requests (generate_stream w p (Some 0))) =
        [case llm_temperature (session_state w) of Some x \<Rightarrow> x | None \<Rightarrow> 0.7]) \<and>
   (get_gigachat_client w = Inr giga \<and> t \<noteq> 0 \<longrightarrow>
      map (\<lambda>(g, request). temperature request) (requests (generate_stream w p (Some t))) = [t]) \<and>
   (get_gigachat_client w = Inr giga \<longrightarrow>
      generate_sync w p (Some 0) =
        (case giga_stream w giga
                \<lparr>messages = [(USER, p)],
                 temperature = (case llm_temperature (session_state w) of Some x \<Rightarrow> x | None \<Rightarrow> 0.7),
                 max_tokens = 4000,
                 model = (case llm_model (session_state w) of
                            Some m \<Rightarrow> m | None \<Rightarrow> str ''GigaChat-2-Max'')\<rparr> of
           (chunks, None) \<Rightarrow> Inr (concat (stream_loop chunks))
         | (chunks, Some e) \<Rightarrow> Inl (RuntimeError e))) \<and>
   (get_gigachat_client w = Inr giga \<and> t \<noteq> 0 \<longrightarrow>
      generate_sync w p (Some t) =
        (case giga_stream w giga
                \<lparr>messages = [(USER, p)], temperature = t, max_tokens = 4000,
                 model = (case llm_model (session_state w) of
                            Some m \<Rightarrow> m | None \<Rightarrow> str ''GigaChat-2-Max'')\<rparr> of
           (chunks, None) \<Rightarrow> Inr (concat (stream_loop chunks))
         | (chunks, Some e) \<Rightarrow> Inl (RuntimeError e)))"
  by (auto simp: generate_stream_def generate_sync_def py_list_def Let_def
      DEFAULT_temperature_def DEFAULT_max_tokens_def str_join_nosep
      split: option.splits prod.splits)

theorem explicit_zero_temperature_ignored_witness:
  "map (\<lambda>(g, request). temperature request)
     (requests (generate_stream thermo_world (str ''hi'') (Some 0))) = [0.7] \<and>
   map (\<lambda>(g, request). temperature request)
     (requests (generate_stream (thermo_world\<lparr>session_state :=
        \<lparr>llm_model = None, llm_temperature = Some 0.2\<rparr>\<rparr>) (str ''hi'') (Some 0))) = [0.2] \<and>
   map (\<lambda>(g, request). temperature request)
     (requests (generate_stream thermo_world (str ''hi'') (Some 0.3))) = [0.3] \<and>
   generate_sync thermo_world (str ''hi'') (Some 0) = Inr (str ''warm'') \<and>
   generate_sync (thermo_world\<lparr>session_state :=
        \<lparr>llm_model = None, llm_temperature = Some 0.2\<rparr>\<rparr>) (str ''hi'') (Some 0) = Inr (str ''cold'') \<and>
   generate_sync thermo_world (str ''hi'') (Some 0.3) = Inr (str ''cold'')"
proof -
  let ?ss = "\<lparr>llm_model = None, llm_temperature = Some 0.2\<rparr>"
  let ?w = "thermo_world\<lparr>session_state := ?ss\<rparr>"
  let ?giga = "\<lparr>credentials = Some (str ''key''), scope = Some (str ''GIGACHAT_API_PERS''),
          client_model = Some (str ''GigaChat-Pro''), ca_bundle_file = None,
          verify_ssl_certs = False\<rparr>"
  have c: "get_gigachat_client ?w = Inr ?giga"
    using thermo_client[of ?ss] by simp
  have c0: "get_gigachat_client thermo_world = Inr ?giga"
    using thermo_client[of "session_state thermo_world"]
    by (simp add: thermo_world_def example_world_def)
  have nz: "(0.3::real) \<noteq> 0" by simp
  note t0 = explicit_zero_temperature_ignored[of thermo_world "str ''hi''" ?giga "0.3"]
  note t1 = explicit_zero_temperature_ignored[of ?w "str ''hi''" ?giga "0.3"]
  have s: "llm_temperature (session_state thermo_world) = None"
    "llm_temperature (session_state ?w) = Some 0.2"
    "llm_model (session_state thermo_world) = None"
    "llm_model (session_state ?w) = None"
    by (simp_all add: thermo_world_def example_world_def)
  have g: "giga_stream ?w giga request =
       ([content_chunk (if temperature request < 0.5 then str ''cold'' else str ''warm'')], None)"
    "giga_stream thermo_world giga request =
       ([content_chunk (if temperature request < 0.5 then str ''cold'' else str ''warm'')], None)"
    for giga request
    by (simp_all add: thermo_world_def)
  have 1: "map (\<lambda>(g, request). temperature request)
          (requests (generate_stream thermo_world (str ''hi'') (Some 0))) = [0.7]"
    using t0[THEN conjunct2, THEN conjunct2, THEN conjunct1, THEN mp, OF c0]
    by (simp only: s option.case)
  have 2: "map (\<lambda>(g, request). temperature request)
          (requests (generate_stream ?w (str ''hi'') (Some 0))) = [0.2]"
    using t1[THEN conjunct2, THEN conjunct2, THEN conjunct1, THEN mp, OF c]
    by (simp only: s option.case)
  have 3: "map (\<lambda>(g, request). temperature request)
          (requests (generate_stream thermo_world (str ''hi'') (Some 0.3))) = [0.3]"
    using t0[THEN conjunct2, THEN conjunct2, THEN conjunct2, THEN conjunct1, THEN mp,
        OF conjI[OF c0 nz]] .
  have 4: "generate_sync thermo_world (str ''hi'') (Some 0) = Inr (str ''warm'')"
    using t0[THEN conjunct2, THEN conjunct2, THEN conjunct2, THEN conjunct2, THEN conjunct1,
        THEN mp, OF c0]
    by (simp add: s g content_chunk_def str_def)
  have 5: "generate_sync ?w (str ''hi'') (Some 0) = Inr (str ''cold'')"
    using t1[THEN conjunct2, THEN conjunct2, THEN conjunct2, THEN conjunct2, THEN conjunct1,
        THEN mp, OF c]
    by (simp add: s g content_chunk_def str_def)
  have 6: "generate_sync thermo_world (str ''hi'') (Some 0.3) = Inr (str ''cold'')"
    using t0[THEN conjunct2, THEN conjunct2, THEN conjunct2, THEN conjunct2, THEN conjunct2,
        THEN mp, OF conjI[OF c0 nz]]
    by (simp add: s g content_chunk_def str_def)
  from 1 2 3 4 5 6 show ?thesis by (intro conjI)
qed




text \<open>
  Claim C4, evaluated on the code. The deployment stores the model \<open>GigaChat-Pro\<close> in
  its secrets and the session has no override: the client is built with the model of
  the layered resolution, \<open>GigaChat-Pro\<close>, but the chat request that is sent names
  \<open>GigaChat-2-Max\<close>, because \<open>generate_stream\<close> resolves the request's model from the
  session or the hardcoded default only.
\<close>

theorem request_model_skips_secret_and_environment:
  "map (\<lambda>(giga, request). (client_model giga, model request))
     (requests (generate_stream example_world (str ''hi'') None)) =
   [(Some (str ''GigaChat-Pro''), str ''GigaChat-2-Max'')]"
  by (simp add: example_stream)

section \<open>Properties of the content service\<close>

lemma those_map_all:
  "\<forall>x\<in>set xs. f x \<noteq> None \<Longrightarrow> those (map f xs) = Some (map (the \<circ> f) xs)"
  by (induction xs) auto

lemma map_Some_the:
  "\<forall>x\<in>set xs. f x \<noteq> None \<Longrightarrow> map Some (map (the \<circ> f) xs) = map f xs"
  by (induction xs) auto

lemma plan_world_client:
  "get_gigachat_client plan_world =
     Inr \<lparr>credentials = Some (str ''key''), scope = Some (str ''GIGACHAT_API_PERS''),
          client_model = Some (str ''GigaChat-Pro''), ca_bundle_file = None,
          verify_ssl_certs = False\<rparr>"
  by (simp add: get_gigachat_client_def plan_world_def example_world_def example_secrets_def
      gigachat_secrets_def py_or_def getenv_default_def str_def)

lemma plan_world_sync:
  "generate_sync plan_world p (Some 0.3) = Inr (str ''Plan: [{topic: A}, {topic: B}] done'')"
  by (simp add: generate_sync_def py_list_def generate_stream_def plan_world_client)
     (simp add: plan_world_def example_world_def content_chunk_def str_def)

lemma plan_world_extract:
  "extract_json_from_text (str ''Plan: [{topic: A}, {topic: B}] done'') =
     str ''[{topic: A}, {topic: B}]''"
  by (simp add: extract_json_from_text_def json_array_re_def str_def)

text \<open>
  Claim C3. When the template loads and formats, the model answers, and the extracted
  bracket span parses as a JSON array of objects that all pass the item schema, then
  \<open>generate_content_plan\<close> returns as many items as the array has objects, the i-th
  item being the validated i-th object; the bare array is wrapped as
  \<open>{"items": array}\<close> and it is this wrapper that the \<open>ContentPlan\<close> schema validates.
\<close>

theorem generate_content_plan_items_in_order:
  assumes "load_prompt w (str ''content_plan'') = Inr prompt_template"
    and "py_format w prompt_template
           [(str ''niche'', niche), (str ''period'', period),
            (str ''channels'', channels), (str ''extra_context'', extra_context)] = Inr final_prompt"
    and "generate_sync w final_prompt (Some 0.3) = Inr raw_response"
    and "json_loads w (extract_json_from_text raw_response) = Some (JArray objs)"
    and "\<forall>obj\<in>set objs. item_schema obj \<noteq> None"
  shows "\<exists>its. generate_content_plan w item_schema niche period channels extra_context = Inr its \<and>
           length its = length objs \<and>
           map Some its = map item_schema objs \<and>
           wrap_list (JArray objs) = JObject [(str ''items'', JArray objs)] \<and>
           ContentPlan_items item_schema [(str ''items'', JArray objs)] = Some its"
proof -
  let ?its = "map (the \<circ> item_schema) objs"
  have v: "ContentPlan_items item_schema [(str ''items'', JArray objs)] = Some ?its"
    using those_map_all[OF assms(5)] by (simp add: ContentPlan_items_def)
  have w: "wrap_list (JArray objs) = JObject [(str ''items'', JArray objs)]"
    by (simp add: wrap_list_def)
  have "parse_plan w item_schema raw_response (extract_json_from_text raw_response) = Inr ?its"
    using assms(4) v w by (simp add: parse_plan_def)
  then have "generate_content_plan w item_schema niche period channels extra_context = Inr ?its"
    using assms(1,2,3) by (simp add: generate_content_plan_def)
  moreover have "map Some ?its = map item_schema objs"
    using map_Some_the[OF assms(5)] .
  ultimately show ?thesis using v w by simp
qed

theorem generate_content_plan_witness:
  "generate_content_plan plan_world topic_schema (str ''n'') (str ''p'') (str ''c'') (str ''e'') =
     Inr [str ''A'', str ''B'']"
proof -
  let ?path = "os_path_join (PROMPTS_DIR plan_world) (str ''content_plan'' @ str ''.txt'')"
  have l: "load_prompt plan_world (str ''content_plan'') = Inr ?path"
    by (simp add: load_prompt_def Let_def) (simp add: plan_world_def example_world_def)
  have f: "py_format plan_world ?path
           [(str ''niche'', str ''n''), (str ''period'', str ''p''),
            (str ''channels'', str ''c''), (str ''extra_context'', str ''e'')] = Inr ?path"
    by (simp add: plan_world_def example_world_def)
  have j: "json_loads plan_world
             (extract_json_from_text (str ''Plan: [{topic: A}, {topic: B}] done'')) =
           Some (JArray plan_objects)"
    unfolding plan_world_extract by (simp add: plan_world_def)
  have s: "map topic_schema plan_objects = [Some (str ''A''), Some (str ''B'')]"
    by (simp add: topic_schema_def plan_objects_def)
  then have ok: "\<forall>obj\<in>set plan_objects. topic_schema obj \<noteq> None"
    by (simp add: plan_objects_def topic_schema_def)
  from generate_content_plan_items_in_order[OF l f plan_world_sync j ok]
  obtain its where
    r: "generate_content_plan plan_world topic_schema (str ''n'') (str ''p'') (str ''c'') (str ''e'')
          = Inr its"
    and m: "map Some its = map topic_schema plan_objects"
    by blast
  from m s have "map Some its = map Some [str ''A'', str ''B'']" by simp
  then have "its = [str ''A'', str ''B'']"
    by (simp only: inj_map_eq_map[OF inj_Some])
  with r show ?thesis by simp
qed

lemma os_path_join_relative_inj:
  assumes "b1 \<noteq> []" "hd b1 \<noteq> SLASH" "b2 \<noteq> []" "hd b2 \<noteq> SLASH"
    and "os_path_join a b1 = os_path_join a b2"
  shows "b1 = b2"
  using assms by (auto simp: os_path_join_def split: if_splits)

lemma stream_requests_temperature:
  "\<forall>(giga, request)\<in>set (requests (generate_stream w p (Some t))). t \<noteq> 0 \<longrightarrow> temperature request = t"
  by (auto simp: generate_stream_def Let_def split: sum.splits)

text \<open>
  Claim C5, as the code has it. Each of the three streaming kinds loads its own
  template, \<open>broadcasts\<close>, \<open>lead_magnets\<close> and \<open>seo_articles\<close>, three distinct files,
  formats it and returns the stream of \<open>generate_stream\<close> for that prompt. The broadcast
  post and the lead magnet are both requested with temperature 0.7; the SEO article is
  requested with the higher temperature 0.8.
\<close>

theorem streaming_kinds_templates_and_temperatures:
  "(generate_broadcast_stream w channel business_niche topic tone brand_keywords = Inr g1 \<longrightarrow>
      (\<exists>template prompt.
         load_prompt w (str ''broadcasts'') = Inr template \<and>
         py_format w template
           [(str ''channel'', channel), (str ''business_niche'', business_niche),
            (str ''topic'', topic), (str ''tone'', tone),
            (str ''brand_keywords'', brand_keywords)] = Inr prompt \<and>
         g1 = generate_stream w prompt (Some 0.7)) \<and>
      (\<forall>(giga, request)\<in>set (requests g1). temperature request = 0.7)) \<and>
   (generate_lead_magnet_stream w lm_type topic audience length_arg business_niche = Inr g2 \<longrightarrow>
      (\<exists>template prompt.
         load_prompt w (str ''lead_magnets'') = Inr template \<and>
         py_format w template
           [(str ''lm_type'', lm_type), (str ''topic'', topic),
            (str ''audience'', audience), (str ''length'', length_arg),
            (str ''business_niche'', business_niche)] = Inr prompt \<and>
         g2 = generate_stream w prompt (Some 0.7)) \<and>
      (\<forall>(giga, request)\<in>set (requests g2). temperature request = 0.7)) \<and>
   (generate_seo_article_stream w business_niche topic target_keywords length_arg = Inr g3 \<longrightarrow>
      (\<exists>template prompt.
         load_prompt w (str ''seo_articles'') = Inr template \<and>
         py_format w template
           [(str ''business_niche'', business_niche), (str ''topic'', topic),
            (str ''target_keywords'', target_keywords), (str ''length'', length_arg)] = Inr prompt \<and>
         g3 = generate_stream w prompt (Some 0.8)) \<and>
      (\<forall>(giga, request)\<in>set (requests g3). temperature request = 0.8)) \<and>
   distinct
     [os_path_join (PROMPTS_DIR w) (str ''broadcasts'' @ str ''.txt''),
      os_path_join (PROMPTS_DIR w) (str ''lead_magnets'' @ str ''.txt''),
      os_path_join (PROMPTS_DIR w) (str ''seo_articles'' @ str ''.txt'')] \<and>
   (0.7 :: real) < 0.8"
proof (intro conjI impI)
  assume a: "generate_broadcast_stream w channel business_niche topic tone brand_keywords = Inr g1"
  then show "\<exists>template prompt.
         load_prompt w (str ''broadcasts'') = Inr template \<and>
         py_format w template
           [(str ''channel'', channel), (str ''business_niche'', business_niche),
            (str ''topic'', topic), (str ''tone'', tone),
            (str ''brand_keywords'', brand_keywords)] = Inr prompt \<and>
         g1 = generate_stream w prompt (Some 0.7)"
    by (auto simp: generate_broadcast_stream_def split: sum.splits)
  then obtain prompt where "g1 = generate_stream w prompt (Some 0.7)" by blast
  then show "\<forall>(giga, request)\<in>set (requests g1). temperature request = 0.7"
    using stream_requests_temperature[of w prompt "0.7"] by auto
next
  assume a: "generate_lead_magnet_stream w lm_type topic audience length_arg business_niche = Inr g2"
  then show "\<exists>template prompt.
         load_prompt w (str ''lead_magnets'') = Inr template \<and>
         py_format w template
           [(str ''lm_type'', lm_type), (str ''topic'', topic),
            (str ''audience'', audience), (str ''length'', length_arg),
            (str ''business_niche'', business_niche)] = Inr prompt \<and>
         g2 = generate_stream w prompt (Some 0.7)"
    by (auto simp: generate_lead_magnet_stream_def split: sum.splits)
  then obtain prompt where "g2 = generate_stream w prompt (Some 0.7)" by blast
  then show "\<forall>(giga, request)\<in>set (requests g2). temperature request = 0.7"
    using stream_requests_temperature[of w prompt "0.7"] by auto
next
  assume a: "generate_seo_article_stream w business_niche topic target_keywords length_arg = Inr g3"
  then show "\<exists>template prompt.
         load_prompt w (str ''seo_articles'') = Inr template \<and>
         py_format w template
           [(str ''business_niche'', business_niche), (str ''topic'', topic),
            (str ''target_keywords'', target_keywords), (str ''length'', length_arg)] = Inr prompt \<and>
         g3 = generate_stream w prompt (Some 0.8)"
    by (auto simp: generate_seo_article_stream_def split: sum.splits)
  then obtain prompt where "g3 = generate_stream w prompt (Some 0.8)" by blast
  then show "\<forall>(giga, request)\<in>set (requests g3). temperature request = 0.8"
    using stream_requests_temperature[of w prompt "0.8"] by auto
next
  have "os_path_join (PROMPTS_DIR w) (str ''broadcasts'' @ str ''.txt'') \<noteq>
        os_path_join (PROMPTS_DIR w) (str ''lead_magnets'' @ str ''.txt'')"
    using os_path_join_relative_inj[of "str ''broadcasts'' @ str ''.txt''"
        "str ''lead_magnets'' @ str ''.txt''" "PROMPTS_DIR w"]
    by (auto simp: str_def)
  moreover have "os_path_join (PROMPTS_DIR w) (str ''broadcasts'' @ str ''.txt'') \<noteq>
        os_path_join (PROMPTS_DIR w) (str ''seo_articles'' @ str ''.txt'')"
    using os_path_join_relative_inj[of "str ''broadcasts'' @ str ''.txt''"
        "str ''seo_articles'' @ str ''.txt''" "PROMPTS_DIR w"]
    by (auto simp: str_def)
  moreover have "os_path_join (PROMPTS_DIR w) (str ''lead_magnets'' @ str ''.txt'') \<noteq>
        os_path_join (PROMPTS_DIR w) (str ''seo_articles'' @ str ''.txt'')"
    using os_path_join_relative_inj[of "str ''lead_magnets'' @ str ''.txt''"
        "str ''seo_articles'' @ str ''.txt''" "PROMPTS_DIR w"]
    by (auto simp: str_def)
  ultimately show "distinct
     [os_path_join (PROMPTS_DIR w) (str ''broadcasts'' @ str ''.txt''),
      os_path_join (PROMPTS_DIR w) (str ''lead_magnets'' @ str ''.txt''),
      os_path_join (PROMPTS_DIR w) (str ''seo_articles'' @ str ''.txt'')]"
    by simp
next
  show "(0.7 :: real) < 0.8" by simp
qed

lemma example_requests_length:
  "length (requests (generate_stream example_world p t)) = 1"
  by (simp add: generate_stream_def example_client Let_def)

lemma example_load_prompt:
  "load_prompt example_world name =
     Inr (os_path_join (PROMPTS_DIR example_world) (name @ str ''.txt''))"
  by (simp add: load_prompt_def Let_def) (simp add: example_world_def)

lemma example_py_format: "py_format example_world template kwargs = Inr template"
  by (simp add: example_world_def)

lemma single_request_temperature:
  assumes "length rs = 1" "\<forall>(giga, request)\<in>set rs. temperature request = t"
  shows "map (\<lambda>(giga, request). temperature request) rs = [t]"
proof -
  from assms(1) obtain x where "rs = [x]"
    by (cases rs) auto
  with assms(2) show ?thesis by (cases x) simp
qed

theorem streaming_kinds_witness:
  "sent_temperatures (generate_broadcast_stream example_world
      (str ''tg'') (str ''shop'') (str ''sale'') (str ''warm'') (str ''k'')) = [0.7] \<and>
   sent_temperatures (generate_lead_magnet_stream example_world
      (str ''guide'') (str ''sale'') (str ''all'') (str ''short'') (str ''shop'')) = [0.7] \<and>
   sent_temperatures (generate_seo_article_stream example_world
      (str ''shop'') (str ''sale'') (str ''k'') (str ''short'')) = [0.8]"
proof -
  let ?g1 = "generate_stream example_world
               (os_path_join (PROMPTS_DIR example_world) (str ''broadcasts'' @ str ''.txt'')) (Some 0.7)"
  let ?g2 = "generate_stream example_world
               (os_path_join (PROMPTS_DIR example_world) (str ''lead_magnets'' @ str ''.txt'')) (Some 0.7)"
  let ?g3 = "generate_stream example_world
               (os_path_join (PROMPTS_DIR example_world) (str ''seo_articles'' @ str ''.txt'')) (Some 0.8)"
  have b: "generate_broadcast_stream example_world
      (str ''tg'') (str ''shop'') (str ''sale'') (str ''warm'') (str ''k'') = Inr ?g1"
    by (simp add: generate_broadcast_stream_def example_load_prompt example_py_format)
  have l: "generate_lead_magnet_stream example_world
      (str ''guide'') (str ''sale'') (str ''all'') (str ''short'') (str ''shop'') = Inr ?g2"
    by (simp add: generate_lead_magnet_stream_def example_load_prompt example_py_format)
  have s: "generate_seo_article_stream example_world
      (str ''shop'') (str ''sale'') (str ''k'') (str ''short'') = Inr ?g3"
    by (simp add: generate_seo_article_stream_def example_load_prompt example_py_format)
  note t = streaming_kinds_templates_and_temperatures
    [of example_world "str ''tg''" "str ''shop''" "str ''sale''" "str ''warm''" "str ''k''" ?g1
        "str ''guide''" "str ''all''" "str ''short''" ?g2 "str ''k''" ?g3]
  have "\<forall>(giga, request)\<in>set (requests ?g1). temperature request = 0.7"
    using t b by blast
  then have 1: "map (\<lambda>(giga, request). temperature request) (requests ?g1) = [0.7]"
    using example_requests_length by (rule single_request_temperature[rotated])
  have "\<forall>(giga, request)\<in>set (requests ?g2). temperature request = 0.7"
    using t l by blast
  then have 2: "map (\<lambda>(giga, request). temperature request) (requests ?g2) = [0.7]"
    using example_requests_length by (rule single_request_temperature[rotated])
  have "\<forall>(giga, request)\<in>set (requests ?g3). temperature request = 0.8"
    using t s by blast
  then have 3: "map (\<lambda>(giga, request). temperature request) (requests ?g3) = [0.8]"
    using example_requests_length by (rule single_request_temperature[rotated])
  show ?thesis
    unfolding b l s sent_temperatures_def using 1 2 3 by simp
qed

text \<open>
  Claim C5 as stated fails: the temperatures of the three kinds are not distinct. The
  broadcast post and the lead magnet are requested with the same temperature.
\<close>

theorem streaming_temperatures_counterexample:
  "sent_temperatures (generate_broadcast_stream example_world
      (str ''tg'') (str ''shop'') (str ''sale'') (str ''warm'') (str ''k'')) =
   sent_temperatures (generate_lead_magnet_stream example_world
      (str ''guide'') (str ''sale'') (str ''all'') (str ''short'') (str ''shop'')) \<and>
   sent_temperatures (generate_lead_magnet_stream example_world
      (str ''guide'') (str ''sale'') (str ''all'') (str ''short'') (str ''shop'')) = [0.7]"
  by (simp add: sent_temperatures_def generate_broadcast_stream_def
      generate_lead_magnet_stream_def example_load_prompt example_py_format
      generate_stream_def example_client Let_def)

section \<open>Properties of the PDF export\<close>

lemma setup_fonts_file_error:
  "fst (setup_fonts lib w st) = Some (FileNotFoundError path) \<longleftrightarrow>
     \<not> FONTS_REGISTERED st \<and> \<not> path_exists w (FONT_REGULAR w) \<and> path = FONT_REGULAR w"
  by (auto simp: setup_fonts_def Let_def split: option.splits)

lemma generate_pdf_file_error:
  "fst (generate_pdf lib w st title sections) = Inl (FileNotFoundError path) \<longleftrightarrow>
     fst (setup_fonts lib w st) = Some (FileNotFoundError path)"
  by (auto simp: generate_pdf_def Let_def split: prod.splits option.splits)

lemma setup_fonts_registers:
  "setup_fonts lib w st = (None, st') \<Longrightarrow> FONTS_REGISTERED st'"
  by (auto simp: setup_fonts_def Let_def split: if_splits option.splits)

lemma generate_pdf_registers:
  "generate_pdf lib w st title sections = (Inr story, st') \<Longrightarrow> FONTS_REGISTERED st'"
  by (auto simp: generate_pdf_def Let_def setup_fonts_registers split: prod.splits option.splits)

lemma para_flowables_fonts:
  "set (concat (map flowable_fonts (para_flowables font_reg font_bold para))) \<subseteq> {font_reg, font_bold}"
  by (simp add: para_flowables_def Let_def title_style_def h2_style_def body_style_def)

lemma section_flowables_fonts:
  "set (concat (map flowable_fonts (section_flowables font_reg font_bold sec))) \<subseteq> {font_reg, font_bold}"
proof -
  have "set (concat (map flowable_fonts (concat (map (para_flowables font_reg font_bold) ps))))
        \<subseteq> {font_reg, font_bold}" for ps
    using para_flowables_fonts[of font_reg font_bold] by (induction ps) auto
  then show ?thesis by (simp add: section_flowables_def)
qed

lemma sections_fonts:
  "set (concat (map flowable_fonts (concat (map (section_flowables font_reg font_bold) sections))))
     \<subseteq> {font_reg, font_bold}"
  using section_flowables_fonts[of font_reg font_bold] by (induction sections) auto

lemma setup_fonts_regular_only:
  assumes "\<not> FONTS_REGISTERED st" "path_exists w (FONT_REGULAR w)" "\<not> path_exists w (FONT_BOLD w)"
    and "ttfont_error lib (str ''Roboto-Regular'') (FONT_REGULAR w) = None"
  shows "\<exists>st'. setup_fonts lib w st = (None, st') \<and> FONTS_REGISTERED st' \<and>
           font_mapping st' (FONT_FAMILY, 0, 0) = Some (str ''Roboto-Regular'') \<and>
           font_mapping st' (FONT_FAMILY, 1, 0) = Some (str ''Roboto-Regular'') \<and>
           font_mapping st' (FONT_FAMILY, 0, 1) = Some (str ''Roboto-Regular'') \<and>
           font_mapping st' (FONT_FAMILY, 1, 1) = Some (str ''Roboto-Regular'') \<and>
           str ''Roboto-Regular'' \<in> set (registered_fonts st')"
proof -
  have n: "FONT_FAMILY @ str ''-Regular'' = str ''Roboto-Regular''"
    by (simp add: FONT_FAMILY_def str_def)
  show ?thesis
    using assms
    by (simp add: setup_fonts_def Let_def n addMapping_def registerFont_def)
qed

text \<open>
  Claim C8, as the code has it. On a rendering in a process whose fonts are not yet
  registered, the font-file error is raised if and only if the regular font file is
  absent. Once the fonts are registered, a rendering never raises it, whatever the
  files on disk. When the fonts are not yet registered, the regular file exists and
  loads, and the bold file is absent, registration succeeds: the regular, bold, italic
  and bold-italic variants of the family are all mapped to the regular font, the only
  font the styles of the story name is the regular font, and it is registered; the
  outcome of the rendering is then ReportLab's: it fails only if ReportLab rejects a
  paragraph's markup or the build of the story.
\<close>

theorem font_error_iff_regular_missing_on_first_render:
  "(\<not> FONTS_REGISTERED st \<longrightarrow>
      (fst (generate_pdf lib w st title sections) = Inl (FileNotFoundError (FONT_REGULAR w))
         \<longleftrightarrow> \<not> path_exists w (FONT_REGULAR w)) \<and>
      (\<forall>path. fst (generate_pdf lib w st title sections) = Inl (FileNotFoundError path) \<longrightarrow>
         path = FONT_REGULAR w)) \<and>
   (FONTS_REGISTERED st \<longrightarrow>
      (\<nexists>path. fst (generate_pdf lib w st title sections) = Inl (FileNotFoundError path))) \<and>
   (\<not> FONTS_REGISTERED st \<and> path_exists w (FONT_REGULAR w) \<and> \<not> path_exists w (FONT_BOLD w) \<and>
    ttfont_error lib (str ''Roboto-Regular'') (FONT_REGULAR w) = None \<longrightarrow>
      (\<exists>story st'.
         snd (generate_pdf lib w st title sections) = st' \<and>
         FONTS_REGISTERED st' \<and>
         font_mapping st' (FONT_FAMILY, 0, 0) = Some (str ''Roboto-Regular'') \<and>
         font_mapping st' (FONT_FAMILY, 1, 0) = Some (str ''Roboto-Regular'') \<and>
         font_mapping st' (FONT_FAMILY, 0, 1) = Some (str ''Roboto-Regular'') \<and>
         font_mapping st' (FONT_FAMILY, 1, 1) = Some (str ''Roboto-Regular'') \<and>
         str ''Roboto-Regular'' \<in> set (registered_fonts st') \<and>
         story_fonts story = {str ''Roboto-Regular''} \<and>
         fst (generate_pdf lib w st title sections) =
           (case first_paragraph_error lib st' story of
              Some n \<Rightarrow> Inl (ReportLabError n)
            | None \<Rightarrow>
                (case build_error lib st' story of
                   Some n \<Rightarrow> Inl (ReportLabError n)
                 | None \<Rightarrow> Inr story))))"
proof (intro conjI impI)
  assume "\<not> FONTS_REGISTERED st"
  then show "fst (generate_pdf lib w st title sections) = Inl (FileNotFoundError (FONT_REGULAR w))
         \<longleftrightarrow> \<not> path_exists w (FONT_REGULAR w)"
    by (simp add: generate_pdf_file_error setup_fonts_file_error)
  show "\<forall>path. fst (generate_pdf lib w st title sections) = Inl (FileNotFoundError path) \<longrightarrow>
         path = FONT_REGULAR w"
    by (simp add: generate_pdf_file_error setup_fonts_file_error)
next
  assume "FONTS_REGISTERED st"
  then show "\<nexists>path. fst (generate_pdf lib w st title sections) = Inl (FileNotFoundError path)"
    by (simp add: generate_pdf_file_error setup_fonts_file_error)
next
  assume a: "\<not> FONTS_REGISTERED st \<and> path_exists w (FONT_REGULAR w) \<and> \<not> path_exists w (FONT_BOLD w) \<and>
    ttfont_error lib (str ''Roboto-Regular'') (FONT_REGULAR w) = None"
  then obtain st' where s: "setup_fonts lib w st = (None, st')" and r: "FONTS_REGISTERED st'"
    and m: "font_mapping st' (FONT_FAMILY, 0, 0) = Some (str ''Roboto-Regular'')"
      "font_mapping st' (FONT_FAMILY, 1, 0) = Some (str ''Roboto-Regular'')"
      "font_mapping st' (FONT_FAMILY, 0, 1) = Some (str ''Roboto-Regular'')"
      "font_mapping st' (FONT_FAMILY, 1, 1) = Some (str ''Roboto-Regular'')"
    and g: "str ''Roboto-Regular'' \<in> set (registered_fonts st')"
    using setup_fonts_regular_only[of st w lib] by blast
  let ?reg = "FONT_FAMILY @ str ''-Regular''"
  let ?story = "Paragraph (str_strip (str_replace1 HASH [] (md_to_html_tags title))) (title_style ?reg)
                # concat (map (section_flowables ?reg ?reg) sections)"
  have p: "generate_pdf lib w st title sections =
           (case first_paragraph_error lib st' ?story of
              Some n \<Rightarrow> (Inl (ReportLabError n), st')
            | None \<Rightarrow>
                (case build_error lib st' ?story of
                   Some n \<Rightarrow> (Inl (ReportLabError n), st')
                 | None \<Rightarrow> (Inr ?story, st')))"
    using a s by (simp add: generate_pdf_def Let_def)
  have p1: "snd (generate_pdf lib w st title sections) = st'"
    unfolding p by (simp split: option.splits)
  have p2: "fst (generate_pdf lib w st title sections) =
           (case first_paragraph_error lib st' ?story of
              Some n \<Rightarrow> Inl (ReportLabError n)
            | None \<Rightarrow>
                (case build_error lib st' ?story of
                   Some n \<Rightarrow> Inl (ReportLabError n)
                 | None \<Rightarrow> Inr ?story))"
    unfolding p by (simp split: option.splits)
  have n: "?reg = str ''Roboto-Regular''"
    by (simp add: FONT_FAMILY_def str_def)
  have "story_fonts ?story = {?reg}"
    using sections_fonts[of ?reg ?reg sections]
    by (auto simp: story_fonts_def title_style_def)
  then have f: "story_fonts ?story = {str ''Roboto-Regular''}"
    by (simp only: n)
  from p1 p2 r m g f show "\<exists>story st'.
         snd (generate_pdf lib w st title sections) = st' \<and>
         FONTS_REGISTERED st' \<and>
         font_mapping st' (FONT_FAMILY, 0, 0) = Some (str ''Roboto-Regular'') \<and>
         font_mapping st' (FONT_FAMILY, 1, 0) = Some (str ''Roboto-Regular'') \<and>
         font_mapping st' (FONT_FAMILY, 0, 1) = Some (str ''Roboto-Regular'') \<and>
         font_mapping st' (FONT_FAMILY, 1, 1) = Some (str ''Roboto-Regular'') \<and>
         str ''Roboto-Regular'' \<in> set (registered_fonts st') \<and>
         story_fonts story = {str ''Roboto-Regular''} \<and>
         fst (generate_pdf lib w st title sections) =
           (case first_paragraph_error lib st' story of
              Some n \<Rightarrow> Inl (ReportLabError n)
            | None \<Rightarrow>
                (case build_error lib st' story of
                   Some n \<Rightarrow> Inl (ReportLabError n)
                 | None \<Rightarrow> Inr story))"
    by blast
qed

lemma example_font_paths:
  "FONT_REGULAR example_world = str ''/app/assets/fonts/Roboto-Regular.ttf''"
  "FONT_BOLD example_world = str ''/app/assets/fonts/Roboto-Bold.ttf''"
  by (simp_all add: FONT_REGULAR_def FONT_BOLD_def FONTS_DIR_def os_path_join_def
      example_world_def str_def)

lemma regular_only_paths:
  "FONT_REGULAR regular_only_world = FONT_REGULAR example_world"
  "FONT_BOLD regular_only_world = FONT_BOLD example_world"
  by (simp_all add: FONT_REGULAR_def FONT_BOLD_def FONTS_DIR_def regular_only_world_def)

lemma accepting_first_paragraph_error:
  "first_paragraph_error accepting_reportlab st story = None"
proof (induction story)
  case Nil
  then show ?case by simp
next
  case (Cons f story)
  then show ?case by (cases f) (simp_all add: accepting_reportlab_def)
qed

theorem font_fallback_witness:
  "\<not> FONTS_REGISTERED fresh_pdf_state \<and>
   path_exists regular_only_world (FONT_REGULAR regular_only_world) \<and>
   \<not> path_exists regular_only_world (FONT_BOLD regular_only_world) \<and>
   (\<exists>story.
      fst (generate_pdf accepting_reportlab regular_only_world fresh_pdf_state
             (str ''T'') [str ''## H **b**'']) = Inr story \<and>
      story_fonts story = {str ''Roboto-Regular''}) \<and>
   font_mapping
     (snd (generate_pdf accepting_reportlab regular_only_world fresh_pdf_state
             (str ''T'') [str ''## H **b**'']))
     (FONT_FAMILY, 1, 0) = Some (str ''Roboto-Regular'') \<and>
   fst (generate_pdf accepting_reportlab no_fonts_world fresh_pdf_state
          (str ''T'') [str ''## H **b**'']) =
     Inl (FileNotFoundError (FONT_REGULAR no_fonts_world))"
proof -
  have f: "\<not> FONTS_REGISTERED fresh_pdf_state"
    by (simp add: fresh_pdf_state_def)
  have r: "path_exists regular_only_world (FONT_REGULAR regular_only_world)"
    unfolding regular_only_paths
    by (simp add: regular_only_world_def example_font_paths str_def)
  have b: "\<not> path_exists regular_only_world (FONT_BOLD regular_only_world)"
    unfolding regular_only_paths by (simp add: regular_only_world_def)
  have l: "ttfont_error accepting_reportlab (str ''Roboto-Regular'')
             (FONT_REGULAR regular_only_world) = None"
    by (simp add: accepting_reportlab_def)
  have n: "\<not> path_exists no_fonts_world (FONT_REGULAR no_fonts_world)"
    by (simp add: no_fonts_world_def)
  note t1 = font_error_iff_regular_missing_on_first_render
    [of fresh_pdf_state accepting_reportlab regular_only_world "str ''T''" "[str ''## H **b**'']"]
  note t2 = font_error_iff_regular_missing_on_first_render
    [of fresh_pdf_state accepting_reportlab no_fonts_world "str ''T''" "[str ''## H **b**'']"]
  from t1 f r b l obtain story st' where
    s: "snd (generate_pdf accepting_reportlab regular_only_world fresh_pdf_state
               (str ''T'') [str ''## H **b**'']) = st'"
    and m: "font_mapping st' (FONT_FAMILY, 1, 0) = Some (str ''Roboto-Regular'')"
    and sf: "story_fonts story = {str ''Roboto-Regular''}"
    and o: "fst (generate_pdf accepting_reportlab regular_only_world fresh_pdf_state
               (str ''T'') [str ''## H **b**'']) =
           (case first_paragraph_error accepting_reportlab st' story of
              Some n \<Rightarrow> Inl (ReportLabError n)
            | None \<Rightarrow>
                (case build_error accepting_reportlab st' story of
                   Some n \<Rightarrow> Inl (ReportLabError n)
                 | None \<Rightarrow> Inr story))"
    by blast
  have "fst (generate_pdf accepting_reportlab regular_only_world fresh_pdf_state
               (str ''T'') [str ''## H **b**'']) = Inr story"
    unfolding o by (simp add: accepting_first_paragraph_error) (simp add: accepting_reportlab_def)
  moreover have "fst (generate_pdf accepting_reportlab no_fonts_world fresh_pdf_state
          (str ''T'') [str ''## H **b**'']) =
     Inl (FileNotFoundError (FONT_REGULAR no_fonts_world))"
    using t2 f n by blast
  ultimately show ?thesis using f r b s m sf by blast
qed

text \<open>
  Claim C8 as stated fails in the direction "absent implies error": a process renders
  once while the fonts are on disk, the font files are then removed, and the next
  rendering in the same process succeeds although the regular font file is absent,
  because the registration flag is already set.
\<close>

theorem font_error_after_registration_counterexample:
  "\<not> path_exists no_fonts_world (FONT_REGULAR no_fonts_world) \<and>
   \<not> isl (fst (generate_pdf accepting_reportlab example_world fresh_pdf_state
               (str ''T'') [str ''## H''])) \<and>
   \<not> isl (fst (generate_pdf accepting_reportlab no_fonts_world
               (snd (generate_pdf accepting_reportlab example_world fresh_pdf_state
                       (str ''T'') [str ''## H'']))
               (str ''T'') [str ''## H'']))"
proof -
  have 1: "\<not> path_exists no_fonts_world (FONT_REGULAR no_fonts_world)"
    by (simp add: no_fonts_world_def)
  have ok: "\<not> isl (fst (generate_pdf accepting_reportlab w st title sections))"
    if "fst (setup_fonts accepting_reportlab w st) = None" for w st title sections
    using that
    by (cases "setup_fonts accepting_reportlab w st")
       (simp add: generate_pdf_def Let_def accepting_first_paragraph_error,
        simp add: accepting_reportlab_def)
  have s1: "fst (setup_fonts accepting_reportlab example_world fresh_pdf_state) = None"
    by (simp add: setup_fonts_def Let_def fresh_pdf_state_def)
       (simp add: example_world_def accepting_reportlab_def)
  obtain out st' where
    p: "generate_pdf accepting_reportlab example_world fresh_pdf_state (str ''T'') [str ''## H'']
          = (out, st')"
    by (cases "generate_pdf accepting_reportlab example_world fresh_pdf_state (str ''T'') [str ''## H'']")
  have o: "\<not> isl out"
    using ok[OF s1, of "str ''T''" "[str ''## H'']"] p by simp
  then obtain story where "out = Inr story" by (cases out) auto
  with p have "FONTS_REGISTERED st'" by (auto dest: generate_pdf_registers)
  then have "fst (setup_fonts accepting_reportlab no_fonts_world st') = None"
    by (simp add: setup_fonts_def)
  from ok[OF this] o 1 p show ?thesis by simp
qed

section \<open>Properties of the HTML export\<close>

lemma safe_md_Cons:
  "safe_md (c # s) =
     (if c = BACKTICK then [BACKSLASH, BACKTICK]
      else if c = DOLLAR then [BACKSLASH, DOLLAR]
      else [c]) @ safe_md s"
  by (simp add: safe_md_def str_replace1_def)

lemma js_template_value_plain:
  "c \<noteq> BACKTICK \<Longrightarrow> c \<noteq> BACKSLASH \<Longrightarrow> c \<noteq> DOLLAR \<Longrightarrow> c \<noteq> 13 \<Longrightarrow>
   js_template_value (c # rest) = map_option ((#) c) (js_template_value rest)"
  by (cases rest) auto

text \<open>
  The escaping does its work on the two characters it handles: a text with no backslash
  and no carriage return is read back unchanged.
\<close>

lemma safe_md_roundtrip_without_backslash:
  "BACKSLASH \<notin> set s \<Longrightarrow> 13 \<notin> set s \<Longrightarrow> js_template_value (safe_md s) = Some s"
proof (induction s)
  case Nil
  then show ?case by (simp add: safe_md_def str_replace1_def)
next
  case (Cons c s)
  then have ih: "js_template_value (safe_md s) = Some s" by simp
  from Cons.prems have c: "c \<noteq> BACKSLASH" "c \<noteq> 13" by auto
  show ?case
  proof (cases "c = BACKTICK \<or> c = DOLLAR")
    case True
    then show ?thesis
      using ih by (auto simp: safe_md_Cons js_escape_def)
  next
    case False
    then show ?thesis
      using ih c by (simp add: safe_md_Cons js_template_value_plain)
  qed
qed

text \<open>
  Claim C9, evaluated on the code at the text \<open>a\nb\<close> (the letter a, a backslash, the
  letters n and b). The exporter leaves the backslash as it is, so the page embeds the
  text unchanged between the backticks, and the viewer's JavaScript reads \<open>\n\<close> as a
  line feed: the value read back is not the original text.
\<close>

theorem html_export_backslash_not_escaped:
  "safe_md (str ''a'' @ BACKSLASH # str ''nb'') = str ''a'' @ BACKSLASH # str ''nb'' \<and>
   create_html_export (str ''a'' @ BACKSLASH # str ''nb'') (str ''T'') =
     html_before_title @ str ''T'' @ html_before_text
       @ (str ''a'' @ BACKSLASH # str ''nb'') @ html_after_text \<and>
   js_template_value (safe_md (str ''a'' @ BACKSLASH # str ''nb'')) =
     Some (str ''a'' @ NEWLINE # str ''b'') \<and>
   js_template_value (safe_md (str ''a'' @ BACKSLASH # str ''nb'')) \<noteq>
     Some (str ''a'' @ BACKSLASH # str ''nb'')"
  by (simp add: create_html_export_def safe_md_def str_replace1_def js_escape_def str_def)

end
